theory Spec2Isabelle
  imports Main "HOL-Library.Sublist"
begin

section \<open>Python values shared by the scripts\<close>

text \<open>
  The exceptions the scripts raise, catch or let escape. \<open>SystemExit n\<close> is what
  \<^verbatim>\<open>sys.exit(n)\<close> raises.
\<close>

datatype exn =
    DlpxException | RequestError | JobError | HttpError
  | KeyError | TypeError | AttributeError | ValueError | NameError
  | SystemExit nat | KeyboardInterrupt

text \<open>
  A Python dictionary in iteration order, as an association list: a lookup reads the
  first entry of a key, a deletion removes every entry of it, and the keys are listed
  once each, in the order of their first entries. Every association list stands for a
  dictionary this way. An assignment \<^verbatim>\<open>d[k] = v\<close> replaces the value of a key that is
  there, in its place, and puts a key that is not there at the end.
\<close>

fun dict_keys :: "('k \<times> 'v) list \<Rightarrow> 'k list" where
  "dict_keys [] = []"
| "dict_keys (p # d) = fst p # filter (\<lambda>k. k \<noteq> fst p) (dict_keys d)"

definition dict_del :: "'k \<Rightarrow> ('k \<times> 'v) list \<Rightarrow> ('k \<times> 'v) list" where
  "dict_del k d = filter (\<lambda>p. fst p \<noteq> k) d"

definition dict_set :: "'k \<Rightarrow> 'v \<Rightarrow> ('k \<times> 'v) list \<Rightarrow> ('k \<times> 'v) list" where
  "dict_set k v d =
     (if k \<in> fst ` set d then map (\<lambda>p. if fst p = k then (k, v) else p) d
      else d @ [(k, v)])"

section \<open>lib/GetReferences.py\<close>

text \<open>
  An object returned by a \<^verbatim>\<open>get_all\<close> call of the SDK: its \<^verbatim>\<open>name\<close> and
  \<^verbatim>\<open>reference\<close>, and the \<^verbatim>\<open>active_branch\<close> attribute that only Jet Stream
  objects carry.
\<close>

record dlpx_obj =
  name :: string
  reference :: string
  active_branch :: "string option"

text \<open>
  The \<^verbatim>\<open>active_branch\<close> argument of \<^verbatim>\<open>find_obj_by_name\<close> is compared with
  \<^verbatim>\<open>is False\<close> and \<^verbatim>\<open>is True\<close>; any other value falls through both tests.
\<close>

datatype pyflag = PyFalse | PyTrue | PyOther

datatype found = Obj dlpx_obj | RefBranch "string list"

text \<open>The \<^verbatim>\<open>for obj in all_objs\<close> loop of \<^verbatim>\<open>find_obj_by_name\<close> and the raise after it.\<close>

fun find_obj_by_name_loop :: "pyflag \<Rightarrow> string \<Rightarrow> dlpx_obj list \<Rightarrow> exn + found" where
  "find_obj_by_name_loop ab obj_name [] = Inl DlpxException"
| "find_obj_by_name_loop ab obj_name (obj # objs) =
     (if name obj = obj_name then
        (if ab = PyFalse then Inr (Obj obj)
         else if ab = PyTrue then
           (case active_branch obj of
              None \<Rightarrow> Inl AttributeError
            | Some b \<Rightarrow> Inr (RefBranch [reference obj, b]))
         else Inr (Obj obj))
      else find_obj_by_name_loop ab obj_name objs)"

text \<open>
  \<^verbatim>\<open>find_obj_by_name(engine, f_class, obj_name, active_branch)\<close>. The class is given
  by its \<^verbatim>\<open>get_all\<close>; an \<^verbatim>\<open>AttributeError\<close> of that call is turned into a
  \<^verbatim>\<open>DlpxException\<close>, any other exception escapes.
\<close>

definition find_obj_by_name ::
  "'s \<Rightarrow> ('s \<Rightarrow> exn + dlpx_obj list) \<Rightarrow> string \<Rightarrow> pyflag \<Rightarrow> exn + found" where
  "find_obj_by_name engine get_all obj_name ab =
     (case get_all engine of
        Inl e \<Rightarrow> (if e = AttributeError then Inl DlpxException else Inl e)
      | Inr all_objs \<Rightarrow> find_obj_by_name_loop ab obj_name all_objs)"

text \<open>
  The loop of \<^verbatim>\<open>find_sourceconfig\<close>: its first iteration either returns or raises,
  so the rest of the list is never read; an empty list falls off the end of the function,
  which returns \<^verbatim>\<open>None\<close>.
\<close>

fun find_sourceconfig_loop :: "string \<Rightarrow> dlpx_obj list \<Rightarrow> exn + dlpx_obj option" where
  "find_sourceconfig_loop sourceconfig_name [] = Inr None"
| "find_sourceconfig_loop sourceconfig_name (obj # objs) =
     (if name obj = sourceconfig_name then Inr (Some obj) else Inl DlpxException)"

definition find_sourceconfig ::
  "'s \<Rightarrow> ('s \<Rightarrow> string \<Rightarrow> exn + dlpx_obj list) \<Rightarrow> string \<Rightarrow> string \<Rightarrow> exn + dlpx_obj option" where
  "find_sourceconfig engine get_all sourceconfig_name f_environment_ref =
     (case get_all engine f_environment_ref of
        Inl e \<Rightarrow> Inl e
      | Inr all_objs \<Rightarrow> find_sourceconfig_loop sourceconfig_name all_objs)"

section \<open>js\_container.py: create\_container\<close>

text \<open>\<^verbatim>\<open>str.split(sep)\<close> for a separator of one character.\<close>

fun py_split :: "char \<Rightarrow> string \<Rightarrow> string list" where
  "py_split c [] = [[]]"
| "py_split c (x # xs) =
     (if x = c then [] # py_split c xs
      else (case py_split c xs of
              [] \<Rightarrow> [[x]]
            | w # ws \<Rightarrow> (x # w) # ws))"

text \<open>
  What \<^verbatim>\<open>create_container\<close> asks of the engine of the session: the templates and the
  databases it lists, and how \<^verbatim>\<open>container.create\<close> ends.
\<close>

record js_remote =
  template_get_all :: "exn + dlpx_obj list"
  database_get_all :: "exn + dlpx_obj list"
  container_create :: "exn option"

text \<open>
  \<^verbatim>\<open>build_ds_params(database, db)\<close>: the database is looked up by name; a
  \<^verbatim>\<open>RequestError\<close> is printed and followed by \<^verbatim>\<open>sys.exit(1)\<close>, the \<^verbatim>\<open>DlpxException\<close>
  of a name that is not found escapes. The parameters built are the source name and the
  reference of the database.
\<close>

definition build_ds_params :: "js_remote \<Rightarrow> string \<Rightarrow> exn + string \<times> string" where
  "build_ds_params R db =
     (case find_obj_by_name R database_get_all db PyFalse of
        Inl e \<Rightarrow> Inl (if e = RequestError then SystemExit 1 else e)
      | Inr (Obj db_obj) \<Rightarrow> Inr (db, reference db_obj)
      | Inr (RefBranch l) \<Rightarrow> Inl AttributeError)"

text \<open>The loop \<^verbatim>\<open>for db in database_name.split(':')\<close>, which stands before the \<^verbatim>\<open>try\<close>.\<close>

fun build_ds_list :: "js_remote \<Rightarrow> string list \<Rightarrow> exn + (string \<times> string) list" where
  "build_ds_list R [] = Inr []"
| "build_ds_list R (db # dbs) =
     (case build_ds_params R db of
        Inl e \<Rightarrow> Inl e
      | Inr p \<Rightarrow> (case build_ds_list R dbs of Inl e \<Rightarrow> Inl e | Inr ps \<Rightarrow> Inr (p # ps)))"

text \<open>
  \<^verbatim>\<open>create_container(template_name, container_name, database_name)\<close>: its result is the
  exception it ends with, if any. Inside the \<^verbatim>\<open>try\<close> the template is looked up and
  \<^verbatim>\<open>container.create\<close> is called; a \<^verbatim>\<open>DlpxException\<close>, \<^verbatim>\<open>RequestError\<close> or
  \<^verbatim>\<open>HttpError\<close> of either is printed and followed by \<^verbatim>\<open>sys.exit(1)\<close>. The job table
  is not touched.
\<close>

definition create_container :: "js_remote \<Rightarrow> string \<Rightarrow> string \<Rightarrow> string \<Rightarrow> exn option" where
  "create_container R template_name container_name database_name =
     (case build_ds_list R (py_split CHR '':'' database_name) of
        Inl e \<Rightarrow> Some e
      | Inr container_ds_lst \<Rightarrow>
          (case (case find_obj_by_name R template_get_all template_name PyFalse of
                   Inl e \<Rightarrow> Some e
                 | Inr js_template_obj \<Rightarrow> container_create R) of
             None \<Rightarrow> None
           | Some e \<Rightarrow>
               (if e \<in> set [DlpxException, RequestError, HttpError]
                then Some (SystemExit 1) else Some e)))"

section \<open>Engines, command line and collaborators\<close>

text \<open>
  One entry of \<^verbatim>\<open>dx_session_obj.dlpx_engines\<close>, the dictionary read from dxtools.conf:
  the keys the scripts read of it. \<open>default_flag\<close> is \<^verbatim>\<open>engine['default']\<close>, a string
  compared with \<^verbatim>\<open>'true'\<close>.
\<close>

record engine =
  hostname :: string
  ip_address :: string
  username :: string
  password :: string
  default_flag :: string

type_synonym config = "(string \<times> engine) list"

text \<open>
  The docopt arguments the orchestration reads: \<^verbatim>\<open>--all\<close> (always a boolean),
  \<^verbatim>\<open>--engine\<close> (\<^verbatim>\<open>None\<close> or a string), \<^verbatim>\<open>--poll\<close> and \<^verbatim>\<open>--config\<close> (strings;
  the usage text gives \<^verbatim>\<open>--poll\<close> the default 10).
\<close>

record arguments =
  all_flag :: bool
  engine_arg :: "string option"
  poll :: string
  config_arg :: string

definition default_poll :: string where
  "default_poll = ''10''"

text \<open>
  What the scripts call and the sources do not hold: the session class of lib/GetSession.py,
  the SDK and the builtins. Each is a parameter of the model.
  \<^item> \<open>getitem\<close>: \<^verbatim>\<open>dx_session_obj[delphix_engine]\<close>, the subscript of the session object;
  \<^item> \<open>get_config\<close>: \<^verbatim>\<open>dx_session_obj.get_config(path)\<close>, which fills \<^verbatim>\<open>dlpx_engines\<close>;
  \<^item> \<open>serversess\<close>: \<^verbatim>\<open>dx_session_obj.serversess(ip, user, password)\<close>;
  \<^item> \<open>submit\<close>: the operation the command line selects, run once by the worker; it
    reads and may extend the job table, and may raise;
  \<^item> \<open>job_get\<close>: \<^verbatim>\<open>job.get(session, reference)\<close>; its first argument counts the calls
    the worker has made before, so the answer for one job may change from call to call;
  \<^item> \<open>sleep_float\<close>: \<^verbatim>\<open>sleep(float(s))\<close>, which raises on a string that is not a number.
\<close>

record ext =
  getitem :: "string \<Rightarrow> exn + engine"
  get_config :: "string \<Rightarrow> exn + config"
  serversess :: "engine \<Rightarrow> exn option"
  submit :: "(string \<times> string) list \<Rightarrow> exn option \<times> (string \<times> string) list"
  job_get :: "nat \<Rightarrow> string \<Rightarrow> exn + string"
  sleep_float :: "string \<Rightarrow> exn option"

section \<open>v1\_8\_0/dx\_environment.py: refresh\_env\<close>

text \<open>
  What \<^verbatim>\<open>refresh_env\<close> asks of the engine of the session: the environments it lists,
  how \<^verbatim>\<open>environment.refresh\<close> ends, and the \<^verbatim>\<open>last_job\<close> the session holds after it.
\<close>

record env_remote =
  environment_get_all :: "exn + dlpx_obj list"
  environment_refresh :: "exn option"
  last_job :: string

text \<open>
  \<^verbatim>\<open>refresh_env(engine, env_name)\<close> on the job table: the environment is looked up by
  name and refreshed, and the job of the refresh is put into the table under the host name
  of the engine. A \<^verbatim>\<open>DlpxException\<close> or \<^verbatim>\<open>RequestError\<close> of the lookup or the refresh
  is reported and followed by \<^verbatim>\<open>sys.exit(1)\<close>, any other exception escapes; the table is
  as it was then.
\<close>

definition refresh_env ::
  "env_remote \<Rightarrow> engine \<Rightarrow> string \<Rightarrow> (string \<times> string) list
     \<Rightarrow> exn option \<times> (string \<times> string) list" where
  "refresh_env R engine env_name js =
     (case (case find_obj_by_name R environment_get_all env_name PyFalse of
              Inl e \<Rightarrow> Inl e
            | Inr (Obj env_obj) \<Rightarrow>
                (case environment_refresh R of
                   Some e \<Rightarrow> Inl e
                 | None \<Rightarrow> Inr (dict_set (hostname engine) (last_job R) js))
            | Inr (RefBranch l) \<Rightarrow> Inl AttributeError) of
        Inr js' \<Rightarrow> (None, js')
      | Inl e \<Rightarrow>
          (if e \<in> set [DlpxException, RequestError] then (Some (SystemExit 1), js)
           else (Some e, js)))"

section \<open>run\_job: choosing the engines and starting the workers\<close>

text \<open>
  What \<^verbatim>\<open>run_job\<close> leaves behind: the argument of every \<^verbatim>\<open>main_workflow\<close> thread it
  started, in order (\<^verbatim>\<open>None\<close> is Python's \<^verbatim>\<open>None\<close>), the threads it joined, and the
  messages it printed.
\<close>

datatype msg =
    ExecutingAll | ExecutingEngine string | ExecutingDefault string
  | EngineNotFound string | ErrorInRunJob | NoDefaultEngine

record run_state =
  started :: "engine option list"
  joined :: "engine option list"
  messages :: "msg list"

text \<open>
  The loop of the \<^verbatim>\<open>--all\<close> branch, the same in the four scripts: every key of
  \<^verbatim>\<open>dlpx_engines\<close> is looked up through the session object and a thread is started
  on the result. It returns the exception that stopped it, the variable \<^verbatim>\<open>engine\<close>
  and the list \<^verbatim>\<open>threads\<close>.
\<close>

fun start_all ::
  "ext \<Rightarrow> string list \<Rightarrow> engine option \<Rightarrow> engine option list
     \<Rightarrow> exn option \<times> engine option \<times> engine option list" where
  "start_all X [] engine threads = (None, engine, threads)"
| "start_all X (delphix_engine # rest) engine threads =
     (case getitem X delphix_engine of
        Inl e \<Rightarrow> (Some e, engine, threads)
      | Inr eng \<Rightarrow> start_all X rest (Some eng) (threads @ [Some eng]))"

text \<open>
  The search for the default engine, the same in the four scripts. The \<^verbatim>\<open>break\<close>
  stands at the level of the \<^verbatim>\<open>if\<close>, not inside it, so the loop ends after its first
  iteration: the keys after the first are never read.
\<close>

fun find_default ::
  "config \<Rightarrow> string list \<Rightarrow> engine option \<Rightarrow> exn option \<times> engine option \<times> msg list" where
  "find_default dlpx_engines [] engine = (None, engine, [])"
| "find_default dlpx_engines (delphix_engine # rest) engine =
     (case map_of dlpx_engines delphix_engine of
        None \<Rightarrow> (Some KeyError, engine, [])
      | Some eng \<Rightarrow>
          (if default_flag eng = ''true''
           then (None, Some eng, [ExecutingDefault (hostname eng)])
           else (None, engine, [])))"

text \<open>
  js\_container.py, the branch \<^verbatim>\<open>arguments['--all'] is False\<close> up to the start of the
  thread. A non-empty \<^verbatim>\<open>--engine\<close> is looked up; the \<^verbatim>\<open>KeyError\<close> of a name that is
  not configured is caught and reported with \<^verbatim>\<open>print_exception\<close>, and nothing is raised,
  so \<^verbatim>\<open>engine\<close> is still \<^verbatim>\<open>None\<close> after it. Without \<^verbatim>\<open>--engine\<close> the default is
  searched, and \<^verbatim>\<open>DlpxException\<close> is raised when \<^verbatim>\<open>engine\<close> is \<^verbatim>\<open>None\<close> after that;
  \<^verbatim>\<open>run_job\<close> prints nothing there.
\<close>

fun js_container_pick :: "string option \<Rightarrow> config \<Rightarrow> exn option \<times> engine option \<times> msg list" where
  "js_container_pick (Some (c # cs)) dlpx_engines =
     (case map_of dlpx_engines (c # cs) of
        Some eng \<Rightarrow> (None, Some eng, [ExecutingEngine (c # cs)])
      | None \<Rightarrow> (None, None, [EngineNotFound (c # cs)]))"
| "js_container_pick _ dlpx_engines =
     (case find_default dlpx_engines (dict_keys dlpx_engines) None of
        (Some e, engine, ms) \<Rightarrow> (Some e, engine, ms)
      | (None, None, ms) \<Rightarrow> (Some DlpxException, None, ms)
      | (None, Some eng, ms) \<Rightarrow> (None, Some eng, ms))"

text \<open>
  js\_container.py \<^verbatim>\<open>run_job\<close>. With \<^verbatim>\<open>--all\<close> a \<^verbatim>\<open>DlpxException\<close> of the loop
  becomes \<^verbatim>\<open>sys.exit(1)\<close> and any other exception escapes; the threads started before it
  are not joined. Otherwise one thread is started on the engine picked. The start of that
  thread is inside the \<^verbatim>\<open>elif\<close> branch.
\<close>

definition js_container_run_job :: "ext \<Rightarrow> arguments \<Rightarrow> config \<Rightarrow> exn option \<times> run_state" where
  "js_container_run_job X A dlpx_engines =
     (if all_flag A then
        (case start_all X (dict_keys dlpx_engines) None [] of
           (Some e, engine, threads) \<Rightarrow>
             (if e = DlpxException
              then (Some (SystemExit 1),
                    \<lparr>started = threads, joined = [], messages = [ExecutingAll, ErrorInRunJob]\<rparr>)
              else (Some e, \<lparr>started = threads, joined = [], messages = [ExecutingAll]\<rparr>))
         | (None, engine, threads) \<Rightarrow>
             (None, \<lparr>started = threads, joined = threads, messages = [ExecutingAll]\<rparr>))
      else
        (case js_container_pick (engine_arg A) dlpx_engines of
           (Some e, engine, ms) \<Rightarrow> (Some e, \<lparr>started = [], joined = [], messages = ms\<rparr>)
         | (None, engine, ms) \<Rightarrow>
             (None, \<lparr>started = [engine], joined = [engine], messages = ms\<rparr>)))"

text \<open>
  v1\_8\_0/dx\_replication.py and v1\_8\_0/dx\_jobs.py: an unknown \<^verbatim>\<open>--engine\<close> raises
  \<^verbatim>\<open>DlpxException\<close> from the handler of the \<^verbatim>\<open>KeyError\<close>.
\<close>

fun dx_replication_pick :: "string option \<Rightarrow> config \<Rightarrow> exn option \<times> engine option \<times> msg list" where
  "dx_replication_pick (Some (c # cs)) dlpx_engines =
     (case map_of dlpx_engines (c # cs) of
        Some eng \<Rightarrow> (None, Some eng, [ExecutingEngine (c # cs)])
      | None \<Rightarrow> (Some DlpxException, None, []))"
| "dx_replication_pick _ dlpx_engines =
     (case find_default dlpx_engines (dict_keys dlpx_engines) None of
        (Some e, engine, ms) \<Rightarrow> (Some e, engine, ms)
      | (None, None, ms) \<Rightarrow> (Some DlpxException, None, ms)
      | (None, Some eng, ms) \<Rightarrow> (None, Some eng, ms))"

text \<open>
  dx\_replication.py \<^verbatim>\<open>run_job\<close>. The line
  \<^verbatim>\<open>threads.append(main_workflow(engine))\<close> after the branches stands at the level of the
  function body, so it also runs after the \<^verbatim>\<open>--all\<close> loop, on the value \<^verbatim>\<open>engine\<close>
  has then.
\<close>

definition dx_replication_run_job :: "ext \<Rightarrow> arguments \<Rightarrow> config \<Rightarrow> exn option \<times> run_state" where
  "dx_replication_run_job X A dlpx_engines =
     (if all_flag A then
        (case start_all X (dict_keys dlpx_engines) None [] of
           (Some e, engine, threads) \<Rightarrow>
             (if e = DlpxException
              then (Some (SystemExit 1),
                    \<lparr>started = threads, joined = [], messages = [ExecutingAll, ErrorInRunJob]\<rparr>)
              else (Some e, \<lparr>started = threads, joined = [], messages = [ExecutingAll]\<rparr>))
         | (None, engine, threads) \<Rightarrow>
             (None, \<lparr>started = threads @ [engine], joined = threads @ [engine],
                     messages = [ExecutingAll]\<rparr>))
      else
        (case dx_replication_pick (engine_arg A) dlpx_engines of
           (Some e, engine, ms) \<Rightarrow> (Some e, \<lparr>started = [], joined = [], messages = ms\<rparr>)
         | (None, engine, ms) \<Rightarrow>
             (None, \<lparr>started = [engine], joined = [engine], messages = ms\<rparr>)))"

text \<open>
  dx\_jobs.py \<^verbatim>\<open>run_job\<close> never assigns \<^verbatim>\<open>engine = None\<close>: the variable is unbound
  until the loop or the lookup binds it, and reading it unbound raises \<^verbatim>\<open>NameError\<close>.
  It is never bound to \<^verbatim>\<open>None\<close>, so here \<open>None\<close> stands for the unbound variable.
\<close>

fun dx_jobs_pick :: "string option \<Rightarrow> config \<Rightarrow> exn option \<times> engine option \<times> msg list" where
  "dx_jobs_pick (Some (c # cs)) dlpx_engines =
     (case map_of dlpx_engines (c # cs) of
        Some eng \<Rightarrow> (None, Some eng, [ExecutingEngine (c # cs)])
      | None \<Rightarrow> (Some DlpxException, None, []))"
| "dx_jobs_pick _ dlpx_engines =
     (case find_default dlpx_engines (dict_keys dlpx_engines) None of
        (Some e, engine, ms) \<Rightarrow> (Some e, engine, ms)
      | (None, None, ms) \<Rightarrow> (Some NameError, None, ms)
      | (None, Some eng, ms) \<Rightarrow> (None, Some eng, ms))"

definition dx_jobs_run_job :: "ext \<Rightarrow> arguments \<Rightarrow> config \<Rightarrow> exn option \<times> run_state" where
  "dx_jobs_run_job X A dlpx_engines =
     (if all_flag A then
        (case start_all X (dict_keys dlpx_engines) None [] of
           (Some e, engine, threads) \<Rightarrow>
             (if e = DlpxException
              then (Some (SystemExit 1),
                    \<lparr>started = threads, joined = [], messages = [ExecutingAll, ErrorInRunJob]\<rparr>)
              else (Some e, \<lparr>started = threads, joined = [], messages = [ExecutingAll]\<rparr>))
         | (None, None, threads) \<Rightarrow>
             (Some NameError, \<lparr>started = threads, joined = [], messages = [ExecutingAll]\<rparr>)
         | (None, Some eng, threads) \<Rightarrow>
             (None, \<lparr>started = threads @ [Some eng], joined = threads @ [Some eng],
                     messages = [ExecutingAll]\<rparr>))
      else
        (case dx_jobs_pick (engine_arg A) dlpx_engines of
           (Some e, engine, ms) \<Rightarrow> (Some e, \<lparr>started = [], joined = [], messages = ms\<rparr>)
         | (None, engine, ms) \<Rightarrow>
             (None, \<lparr>started = [engine], joined = [engine], messages = ms\<rparr>)))"

text \<open>
  dx\_environment.py: an unknown \<^verbatim>\<open>--engine\<close> is reported and nothing is raised, as in
  js\_container.py; a missing default is reported and followed by \<^verbatim>\<open>sys.exit(1)\<close>.
\<close>

fun dx_environment_pick :: "string option \<Rightarrow> config \<Rightarrow> exn option \<times> engine option \<times> msg list" where
  "dx_environment_pick (Some (c # cs)) dlpx_engines =
     (case map_of dlpx_engines (c # cs) of
        Some eng \<Rightarrow> (None, Some eng, [ExecutingEngine (c # cs)])
      | None \<Rightarrow> (None, None, [EngineNotFound (c # cs)]))"
| "dx_environment_pick _ dlpx_engines =
     (case find_default dlpx_engines (dict_keys dlpx_engines) None of
        (Some e, engine, ms) \<Rightarrow> (Some e, engine, ms)
      | (None, None, ms) \<Rightarrow> (Some (SystemExit 1), None, ms @ [NoDefaultEngine])
      | (None, Some eng, ms) \<Rightarrow> (None, Some eng, ms))"

definition dx_environment_run_job :: "ext \<Rightarrow> arguments \<Rightarrow> config \<Rightarrow> exn option \<times> run_state" where
  "dx_environment_run_job X A dlpx_engines =
     (if all_flag A then
        (case start_all X (dict_keys dlpx_engines) None [] of
           (Some e, engine, threads) \<Rightarrow>
             (if e = DlpxException
              then (Some (SystemExit 1),
                    \<lparr>started = threads, joined = [], messages = [ExecutingAll, ErrorInRunJob]\<rparr>)
              else (Some e, \<lparr>started = threads, joined = [], messages = [ExecutingAll]\<rparr>))
         | (None, engine, threads) \<Rightarrow>
             (None, \<lparr>started = threads, joined = threads, messages = [ExecutingAll]\<rparr>))
      else
        (case dx_environment_pick (engine_arg A) dlpx_engines of
           (Some e, engine, ms) \<Rightarrow> (Some e, \<lparr>started = [], joined = [], messages = ms\<rparr>)
         | (None, engine, ms) \<Rightarrow>
             (None, \<lparr>started = [engine], joined = [engine], messages = ms\<rparr>)))"

section \<open>main\_workflow: the worker of one engine\<close>

text \<open>
  What a worker does that can be seen from outside, in order: a call of
  \<^verbatim>\<open>job.get\<close> for a key of the job table with what it returned or raised, the count
  printed by \<^verbatim>\<open>'{:d} jobs running'\<close>, and a \<^verbatim>\<open>sleep\<close> with the \<^verbatim>\<open>--poll\<close> string.
\<close>

datatype event = Fetch string "exn + string" | Running nat | Sleep string

text \<open>
  The state a worker reads and writes: \<^verbatim>\<open>dx_session_obj.jobs\<close> (key to job
  reference), the number of \<^verbatim>\<open>job.get\<close> calls made, and the events so far.
\<close>

record session =
  jobs :: "(string \<times> string) list"
  clock :: nat
  trace :: "event list"

definition terminal_states :: "string list" where
  "terminal_states = [''CANCELED'', ''COMPLETED'', ''FAILED'']"

text \<open>
  The counter \<^verbatim>\<open>i\<close> after one job of js\_container.py: a terminal state leaves it, and
  \<^verbatim>\<open>job_state in 'RUNNING'\<close> is Python's substring test on strings.
\<close>

definition js_container_count :: "string \<Rightarrow> nat \<Rightarrow> nat" where
  "js_container_count job_state i =
     (if job_state \<in> set terminal_states then i
      else if sublist job_state ''RUNNING'' then Suc i
      else i)"

text \<open>
  js\_container.py, the loop \<^verbatim>\<open>for j in dx_session_obj.jobs.keys()\<close> over the list
  of keys taken before the loop. The print of the count and the \<^verbatim>\<open>sleep\<close> stand inside
  the loop body: they run after every job. An exception ends the loop with the state as
  it is then.
\<close>

fun js_container_poll ::
  "ext \<Rightarrow> arguments \<Rightarrow> string list \<Rightarrow> nat \<Rightarrow> session \<Rightarrow> exn option \<times> session" where
  "js_container_poll X A [] i s = (None, s)"
| "js_container_poll X A (j # rest) i s =
     (case map_of (jobs s) j of
        None \<Rightarrow> (Some KeyError, s)
      | Some ref \<Rightarrow>
          (case job_get X (clock s) ref of
             Inl e \<Rightarrow>
               (Some e, s\<lparr>clock := Suc (clock s), trace := trace s @ [Fetch j (Inl e)]\<rparr>)
           | Inr job_state \<Rightarrow>
               (let i' = js_container_count job_state i;
                    s1 = s\<lparr>clock := Suc (clock s),
                           jobs := (if job_state \<in> set terminal_states
                                    then dict_del j (jobs s) else jobs s),
                           trace := trace s @ [Fetch j (Inr job_state), Running i']\<rparr>
                in if jobs s1 \<noteq> [] then
                     (case sleep_float X (poll A) of
                        Some e \<Rightarrow> (Some e, s1)
                      | None \<Rightarrow>
                          js_container_poll X A rest i'
                            (s1\<lparr>trace := trace s1 @ [Sleep (poll A)]\<rparr>))
                   else js_container_poll X A rest i' s1)))"

text \<open>
  js\_container.py, the \<^verbatim>\<open>while len(jobs) > 0 or len(thingstodo) > 0\<close> loop. \<open>todo\<close>
  says that \<^verbatim>\<open>thingstodo\<close> still holds its one item; the operation is run in the first
  iteration and the item popped. The loop runs as long as the job table is not empty,
  so the model counts iterations down from \<open>fuel\<close> and returns \<open>None\<close> when they are
  used up before the loop has ended. The context manager \<^verbatim>\<open>job_mode\<close> of the session
  class, which stands around the loop, is not in the sources; it is taken to do nothing
  the worker can see.
\<close>

fun js_container_loop ::
  "ext \<Rightarrow> arguments \<Rightarrow> nat \<Rightarrow> bool \<Rightarrow> session \<Rightarrow> (exn option \<times> session) option" where
  "js_container_loop X A 0 todo s =
     (if jobs s \<noteq> [] \<or> todo then None else Some (None, s))"
| "js_container_loop X A (Suc fuel) todo s =
     (if jobs s \<noteq> [] \<or> todo then
        (case (if todo then submit X (jobs s) else (None, jobs s)) of
           (Some e, js) \<Rightarrow> Some (Some e, s\<lparr>jobs := js\<rparr>)
         | (None, js) \<Rightarrow>
             (case js_container_poll X A (dict_keys js) 0 (s\<lparr>jobs := js\<rparr>) of
                (Some e, s') \<Rightarrow> Some (Some e, s')
              | (None, s') \<Rightarrow> js_container_loop X A fuel False s'))
      else Some (None, s))"

text \<open>
  The exceptions the \<^verbatim>\<open>except\<close> clause around the loop of js\_container.py catches;
  it prints the error and calls \<^verbatim>\<open>sys.exit(1)\<close>.
\<close>

definition js_container_caught :: "exn list" where
  "js_container_caught = [DlpxException, RequestError, JobError, HttpError]"

text \<open>
  js\_container.py \<^verbatim>\<open>main_workflow(engine)\<close>, the body that runs in the thread. Its
  result is the exception that ends the thread, if any: \<^verbatim>\<open>SystemExit 1\<close> after
  \<^verbatim>\<open>sys.exit(1)\<close>. Subscripting \<^verbatim>\<open>None\<close> raises \<^verbatim>\<open>TypeError\<close>. The handler of a
  failed session reads \<^verbatim>\<open>dx_session_obj.dlpx_engines['hostname']\<close> for its message, a
  \<^verbatim>\<open>KeyError\<close> unless an engine is configured under that name.
\<close>

definition js_container_main_workflow ::
  "ext \<Rightarrow> arguments \<Rightarrow> config \<Rightarrow> nat \<Rightarrow> engine option \<Rightarrow> session
     \<Rightarrow> (exn option \<times> session) option" where
  "js_container_main_workflow X A dlpx_engines fuel engine s =
     (case engine of
        None \<Rightarrow> Some (Some TypeError, s)
      | Some eng \<Rightarrow>
          (case serversess X eng of
             Some e \<Rightarrow>
               (if e = DlpxException then
                  (case map_of dlpx_engines ''hostname'' of
                     None \<Rightarrow> Some (Some KeyError, s)
                   | Some _ \<Rightarrow> Some (Some (SystemExit 1), s))
                else Some (Some e, s))
           | None \<Rightarrow>
               (case js_container_loop X A fuel True s of
                  None \<Rightarrow> None
                | Some (None, s') \<Rightarrow> Some (None, s')
                | Some (Some e, s') \<Rightarrow>
                    Some (Some (if e \<in> set js_container_caught then SystemExit 1 else e), s'))))"

text \<open>
  The threads of two workers share the one session object of the process. One order in
  which they can run: the worker of the first engine to its end, then the worker of the
  second on the session object as the first left it. The result holds how each of them
  ended and the session object after both.
\<close>

definition js_container_in_turn ::
  "ext \<Rightarrow> ext \<Rightarrow> arguments \<Rightarrow> config \<Rightarrow> nat \<Rightarrow> nat \<Rightarrow> engine option \<Rightarrow> engine option
     \<Rightarrow> session \<Rightarrow> (exn option \<times> exn option \<times> session) option" where
  "js_container_in_turn XA XB A dlpx_engines fuelA fuelB engineA engineB s =
     (case js_container_main_workflow XA A dlpx_engines fuelA engineA s of
        None \<Rightarrow> None
      | Some (rA, sA) \<Rightarrow>
          (case js_container_main_workflow XB A dlpx_engines fuelB engineB sA of
             None \<Rightarrow> None
           | Some (rB, sB) \<Rightarrow> Some (rA, rB, sB)))"

text \<open>
  dx\_environment.py: the loop over the keys only fetches, retires and counts (every
  state that is not terminal is counted); the count is printed and the worker sleeps
  after the loop, once.
\<close>

fun dx_environment_poll ::
  "ext \<Rightarrow> string list \<Rightarrow> nat \<Rightarrow> session \<Rightarrow> exn option \<times> nat \<times> session" where
  "dx_environment_poll X [] i s = (None, i, s)"
| "dx_environment_poll X (j # rest) i s =
     (case map_of (jobs s) j of
        None \<Rightarrow> (Some KeyError, i, s)
      | Some ref \<Rightarrow>
          (case job_get X (clock s) ref of
             Inl e \<Rightarrow>
               (Some e, i, s\<lparr>clock := Suc (clock s), trace := trace s @ [Fetch j (Inl e)]\<rparr>)
           | Inr job_state \<Rightarrow>
               dx_environment_poll X rest
                 (if job_state \<in> set terminal_states then i else Suc i)
                 (s\<lparr>clock := Suc (clock s),
                    jobs := (if job_state \<in> set terminal_states
                             then dict_del j (jobs s) else jobs s),
                    trace := trace s @ [Fetch j (Inr job_state)]\<rparr>)))"

text \<open>One pass of dx\_environment.py: the loop over the keys, the print, the sleep.\<close>

definition dx_environment_cycle :: "ext \<Rightarrow> arguments \<Rightarrow> session \<Rightarrow> exn option \<times> session" where
  "dx_environment_cycle X A s =
     (case dx_environment_poll X (dict_keys (jobs s)) 0 s of
        (Some e, i, s') \<Rightarrow> (Some e, s')
      | (None, i, s') \<Rightarrow>
          (let s1 = s'\<lparr>trace := trace s' @ [Running i]\<rparr>
           in if jobs s1 \<noteq> [] then
                (case sleep_float X (poll A) of
                   Some e \<Rightarrow> (Some e, s1)
                 | None \<Rightarrow> (None, s1\<lparr>trace := trace s1 @ [Sleep (poll A)]\<rparr>))
              else (None, s1)))"

fun dx_environment_loop ::
  "ext \<Rightarrow> arguments \<Rightarrow> nat \<Rightarrow> bool \<Rightarrow> session \<Rightarrow> (exn option \<times> session) option" where
  "dx_environment_loop X A 0 todo s =
     (if jobs s \<noteq> [] \<or> todo then None else Some (None, s))"
| "dx_environment_loop X A (Suc fuel) todo s =
     (if jobs s \<noteq> [] \<or> todo then
        (case (if todo then submit X (jobs s) else (None, jobs s)) of
           (Some e, js) \<Rightarrow> Some (Some e, s\<lparr>jobs := js\<rparr>)
         | (None, js) \<Rightarrow>
             (case dx_environment_cycle X A (s\<lparr>jobs := js\<rparr>) of
                (Some e, s') \<Rightarrow> Some (Some e, s')
              | (None, s') \<Rightarrow> dx_environment_loop X A fuel False s'))
      else Some (None, s))"

text \<open>
  dx\_environment.py \<^verbatim>\<open>main_workflow(engine)\<close>: the \<^verbatim>\<open>except\<close> clause around the
  loop names \<^verbatim>\<open>DlpxException\<close> and \<^verbatim>\<open>JobError\<close> only. The handler of a failed
  session reads \<^verbatim>\<open>arguments['--target']\<close> for its message, an option the usage text
  of the script does not have: a \<^verbatim>\<open>KeyError\<close>, raised before \<^verbatim>\<open>sys.exit(1)\<close> is
  reached.
\<close>

definition dx_environment_caught :: "exn list" where
  "dx_environment_caught = [DlpxException, JobError]"

definition dx_environment_main_workflow ::
  "ext \<Rightarrow> arguments \<Rightarrow> nat \<Rightarrow> engine option \<Rightarrow> session \<Rightarrow> (exn option \<times> session) option" where
  "dx_environment_main_workflow X A fuel engine s =
     (case engine of
        None \<Rightarrow> Some (Some TypeError, s)
      | Some eng \<Rightarrow>
          (case serversess X eng of
             Some e \<Rightarrow> Some (Some (if e = DlpxException then KeyError else e), s)
           | None \<Rightarrow>
               (case dx_environment_loop X A fuel True s of
                  None \<Rightarrow> None
                | Some (None, s') \<Rightarrow> Some (None, s')
                | Some (Some e, s') \<Rightarrow>
                    Some (Some (if e \<in> set dx_environment_caught then SystemExit 1 else e), s'))))"

text \<open>
  dx\_jobs.py: the loop over the keys fetches, retires and counts as js\_container.py
  does and prints the count after every job; the \<^verbatim>\<open>sleep\<close> stands after the loop.
\<close>

fun dx_jobs_poll ::
  "ext \<Rightarrow> string list \<Rightarrow> nat \<Rightarrow> session \<Rightarrow> exn option \<times> session" where
  "dx_jobs_poll X [] i s = (None, s)"
| "dx_jobs_poll X (j # rest) i s =
     (case map_of (jobs s) j of
        None \<Rightarrow> (Some KeyError, s)
      | Some ref \<Rightarrow>
          (case job_get X (clock s) ref of
             Inl e \<Rightarrow>
               (Some e, s\<lparr>clock := Suc (clock s), trace := trace s @ [Fetch j (Inl e)]\<rparr>)
           | Inr job_state \<Rightarrow>
               dx_jobs_poll X rest (js_container_count job_state i)
                 (s\<lparr>clock := Suc (clock s),
                    jobs := (if job_state \<in> set terminal_states
                             then dict_del j (jobs s) else jobs s),
                    trace := trace s @ [Fetch j (Inr job_state),
                                        Running (js_container_count job_state i)]\<rparr>)))"

text \<open>One pass of dx\_jobs.py: the loop over the keys, then the sleep.\<close>

definition dx_jobs_cycle :: "ext \<Rightarrow> arguments \<Rightarrow> session \<Rightarrow> exn option \<times> session" where
  "dx_jobs_cycle X A s =
     (case dx_jobs_poll X (dict_keys (jobs s)) 0 s of
        (Some e, s') \<Rightarrow> (Some e, s')
      | (None, s') \<Rightarrow>
          (if jobs s' \<noteq> [] then
             (case sleep_float X (poll A) of
                Some e \<Rightarrow> (Some e, s')
              | None \<Rightarrow> (None, s'\<lparr>trace := trace s' @ [Sleep (poll A)]\<rparr>))
           else (None, s')))"

fun dx_jobs_loop ::
  "ext \<Rightarrow> arguments \<Rightarrow> nat \<Rightarrow> bool \<Rightarrow> session \<Rightarrow> (exn option \<times> session) option" where
  "dx_jobs_loop X A 0 todo s =
     (if jobs s \<noteq> [] \<or> todo then None else Some (None, s))"
| "dx_jobs_loop X A (Suc fuel) todo s =
     (if jobs s \<noteq> [] \<or> todo then
        (case (if todo then submit X (jobs s) else (None, jobs s)) of
           (Some e, js) \<Rightarrow> Some (Some e, s\<lparr>jobs := js\<rparr>)
         | (None, js) \<Rightarrow>
             (case dx_jobs_cycle X A (s\<lparr>jobs := js\<rparr>) of
                (Some e, s') \<Rightarrow> Some (Some e, s')
              | (None, s') \<Rightarrow> dx_jobs_loop X A fuel False s'))
      else Some (None, s))"

text \<open>
  dx\_jobs.py \<^verbatim>\<open>main_workflow(engine)\<close>: no \<^verbatim>\<open>try\<close> stands around the loop, so
  every exception of it ends the thread as it is. The handler of a failed session reads
  \<^verbatim>\<open>arguments['--target']\<close>, an option the usage text of the script does not have.
\<close>

definition dx_jobs_main_workflow ::
  "ext \<Rightarrow> arguments \<Rightarrow> nat \<Rightarrow> engine option \<Rightarrow> session \<Rightarrow> (exn option \<times> session) option" where
  "dx_jobs_main_workflow X A fuel engine s =
     (case engine of
        None \<Rightarrow> Some (Some TypeError, s)
      | Some eng \<Rightarrow>
          (case serversess X eng of
             Some e \<Rightarrow> Some (Some (if e = DlpxException then KeyError else e), s)
           | None \<Rightarrow> dx_jobs_loop X A fuel True s))"

section \<open>main: the exit status of the process\<close>

text \<open>
  The \<^verbatim>\<open>except\<close> clauses of \<^verbatim>\<open>main\<close> in js\_container.py, in their order. An
  exception of a thread never reaches them: the thread object that \<^verbatim>\<open>run_async\<close>
  returns is only joined, and \<^verbatim>\<open>join\<close> returns nothing. \<^verbatim>\<open>sys.exit(e)\<close> on the caught
  \<^verbatim>\<open>SystemExit\<close> object ends the process with status 1; after \<^verbatim>\<open>KeyboardInterrupt\<close>
  the handler only prints, and \<^verbatim>\<open>main\<close> returns.
\<close>

fun js_container_exit_status :: "exn option \<Rightarrow> nat" where
  "js_container_exit_status None = 0"
| "js_container_exit_status (Some (SystemExit n)) = 1"
| "js_container_exit_status (Some DlpxException) = 2"
| "js_container_exit_status (Some HttpError) = 2"
| "js_container_exit_status (Some JobError) = 3"
| "js_container_exit_status (Some KeyboardInterrupt) = 0"
| "js_container_exit_status (Some _) = 1"

text \<open>
  js\_container.py \<^verbatim>\<open>main\<close>: the configuration is read, \<^verbatim>\<open>run_job\<close> runs, and the
  exit status follows from how \<^verbatim>\<open>run_job\<close> ended.
\<close>

definition js_container_main :: "ext \<Rightarrow> arguments \<Rightarrow> nat \<times> run_state" where
  "js_container_main X A =
     (case get_config X (config_arg A) of
        Inl e \<Rightarrow> (js_container_exit_status (Some e), \<lparr>started = [], joined = [], messages = []\<rparr>)
      | Inr dlpx_engines \<Rightarrow>
          (case js_container_run_job X A dlpx_engines of
             (r, st) \<Rightarrow> (js_container_exit_status r, st)))"

section \<open>Reading the events of a worker\<close>

text \<open>
  The keys a list of events polls, in order; the keys it retires (polled with a terminal
  state returned); the fetches that failed; and whether no key is polled again after
  an event that retired it.
\<close>

fun polled :: "event list \<Rightarrow> string list" where
  "polled [] = []"
| "polled (Fetch k r # evs) = k # polled evs"
| "polled (Running n # evs) = polled evs"
| "polled (Sleep p # evs) = polled evs"

fun retired :: "event list \<Rightarrow> string list" where
  "retired [] = []"
| "retired (Fetch k (Inr st) # evs) =
     (if st \<in> set terminal_states then k # retired evs else retired evs)"
| "retired (Fetch k (Inl e) # evs) = retired evs"
| "retired (Running n # evs) = retired evs"
| "retired (Sleep p # evs) = retired evs"

fun failures :: "event list \<Rightarrow> (string \<times> exn) list" where
  "failures [] = []"
| "failures (Fetch k (Inl e) # evs) = (k, e) # failures evs"
| "failures (Fetch k (Inr st) # evs) = failures evs"
| "failures (Running n # evs) = failures evs"
| "failures (Sleep p # evs) = failures evs"

fun no_repoll :: "event list \<Rightarrow> bool" where
  "no_repoll [] = True"
| "no_repoll (Fetch k (Inr st) # evs) =
     ((if st \<in> set terminal_states then k \<notin> set (polled evs) else True) \<and> no_repoll evs)"
| "no_repoll (Fetch k (Inl e) # evs) = no_repoll evs"
| "no_repoll (Running n # evs) = no_repoll evs"
| "no_repoll (Sleep p # evs) = no_repoll evs"


text \<open>
  What the events \<open>evs\<close> of a run from state \<open>s\<close> to state \<open>s'\<close> with outcome \<open>r\<close>
  satisfy, when only keys of \<open>K\<close> were tracked: they extend the trace, poll keys of
  \<open>K\<close> only, the job table has lost exactly the retired keys, no retired key is polled
  again, and a failed fetch is the last event, gives the outcome and leaves its key
  tracked.
\<close>

definition events_ok :: "string set \<Rightarrow> session \<Rightarrow> exn option \<Rightarrow> session \<Rightarrow> event list \<Rightarrow> bool" where
  "events_ok K s r s' evs =
     (trace s' = trace s @ evs
      \<and> set (polled evs) \<subseteq> K
      \<and> jobs s' = filter (\<lambda>p. fst p \<notin> set (retired evs)) (jobs s)
      \<and> no_repoll evs
      \<and> (failures evs = []
         \<or> (\<exists>pre k e. evs = pre @ [Fetch k (Inl e)] \<and> failures pre = [] \<and> r = Some e
               \<and> k \<in> fst ` set (jobs s'))))"

section \<open>Concrete inputs\<close>

text \<open>
  Two configured engines, \<open>eng_b\<close> marked default, and the collaborators of a run in
  which every call succeeds: the session object answers a subscript from the
  configuration, the operation tracks nothing, every job is \<^verbatim>\<open>COMPLETED\<close>.
\<close>

definition eng_a :: engine where
  "eng_a = \<lparr>hostname = ''a.example'', ip_address = ''10.0.0.1'', username = ''admin'',
            password = ''pw'', default_flag = ''false''\<rparr>"

definition eng_b :: engine where
  "eng_b = \<lparr>hostname = ''b.example'', ip_address = ''10.0.0.2'', username = ''admin'',
            password = ''pw'', default_flag = ''true''\<rparr>"

definition ext_of :: "config \<Rightarrow> ext" where
  "ext_of conf =
     \<lparr>getitem = (\<lambda>k. case map_of conf k of None \<Rightarrow> Inl KeyError | Some e \<Rightarrow> Inr e),
      get_config = (\<lambda>_. Inr conf),
      serversess = (\<lambda>_. None),
      submit = (\<lambda>js. (None, js)),
      job_get = (\<lambda>n r. Inr ''COMPLETED''),
      sleep_float = (\<lambda>_. None)\<rparr>"

definition args_of :: "bool \<Rightarrow> string option \<Rightarrow> arguments" where
  "args_of al en =
     \<lparr>all_flag = al, engine_arg = en, poll = default_poll, config_arg = ''./dxtools.conf''\<rparr>"

definition session0 :: session where
  "session0 = \<lparr>jobs = [], clock = 0, trace = []\<rparr>"

text \<open>A job table with two entries, and an engine on which every job is still running.\<close>

definition two_jobs :: session where
  "two_jobs = \<lparr>jobs = [(''k1'', ''JOB-1''), (''k2'', ''JOB-2'')], clock = 0, trace = []\<rparr>"

definition ext_running :: ext where
  "ext_running = (ext_of [])\<lparr>job_get := (\<lambda>n r. Inr ''RUNNING'')\<rparr>"

text \<open>
  An engine whose operation leaves one job in the table and whose job status cannot be
  fetched: every \<^verbatim>\<open>job.get\<close> raises \<^verbatim>\<open>HttpError\<close>.
\<close>

definition ext_unreachable :: ext where
  "ext_unreachable =
     (ext_of [(''a'', eng_a)])
       \<lparr>submit := (\<lambda>js. (None, js @ [(''a.example'', ''JOB-1'')])),
        job_get := (\<lambda>n r. Inl HttpError)\<rparr>"

text \<open>An engine whose one job is running at the first two polls and completed at the third.\<close>

definition ext_slow :: ext where
  "ext_slow =
     (ext_of [(''a'', eng_a)])
       \<lparr>submit := (\<lambda>js. (None, js @ [(''a.example'', ''JOB-1'')])),
        job_get := (\<lambda>n r. if n < 2 then Inr ''RUNNING'' else Inr ''COMPLETED'')\<rparr>"

text \<open>
  An engine whose one job is running at the first poll, cannot be fetched at the second
  (\<^verbatim>\<open>HttpError\<close>) and would be reported completed at the third.
\<close>

definition ext_flaky :: ext where
  "ext_flaky =
     (ext_of [(''a'', eng_a)])
       \<lparr>submit := (\<lambda>js. (None, js @ [(''a.example'', ''JOB-1'')])),
        job_get := (\<lambda>n r. if n = 0 then Inr ''RUNNING''
                           else if n = 1 then Inl HttpError else Inr ''COMPLETED'')\<rparr>"

text \<open>A job table with one job, for an engine that cannot be reached.\<close>

definition failing_job :: session where
  "failing_job = \<lparr>jobs = [(''a.example'', ''JOB-1'')], clock = 0, trace = []\<rparr>"

text \<open>
  An engine that has the template and the database asked for and rejects
  \<^verbatim>\<open>container.create\<close> with a \<^verbatim>\<open>RequestError\<close>, and the collaborators of
  \<^verbatim>\<open>js_container.py --create_container c1 --template_name t1 --database db1\<close> on it.
\<close>

definition remote_rejecting :: js_remote where
  "remote_rejecting =
     \<lparr>template_get_all =
        Inr [\<lparr>name = ''t1'', reference = ''JS_DATA_TEMPLATE-1'', active_branch = None\<rparr>],
      database_get_all =
        Inr [\<lparr>name = ''db1'', reference = ''ORACLE_DB_CONTAINER-1'', active_branch = None\<rparr>],
      container_create = Some RequestError\<rparr>"

definition ext_rejecting :: ext where
  "ext_rejecting =
     (ext_of [(''a'', eng_a)])
       \<lparr>submit := (\<lambda>js. (create_container remote_rejecting ''t1'' ''c1'' ''db1'', js))\<rparr>"

text \<open>The same engine when it accepts the creation.\<close>

definition remote_accepting :: js_remote where
  "remote_accepting = remote_rejecting\<lparr>container_create := None\<rparr>"

definition ext_accepting :: ext where
  "ext_accepting =
     (ext_of [(''a'', eng_a)])
       \<lparr>submit := (\<lambda>js. (create_container remote_accepting ''t1'' ''c1'' ''db1'', js))\<rparr>"

text \<open>
  An engine that has the environment asked for and accepts its refresh as job
  \<^verbatim>\<open>JOB-1\<close>, and the collaborators of \<^verbatim>\<open>dx_environment.py --refresh env1\<close> on engine
  \<open>eng_a\<close>: once with the job running at the first two polls and completed at the third,
  once with the job running at the first poll, not fetched at the second
  (\<^verbatim>\<open>HttpError\<close>) and completed at the third.
\<close>

definition remote_env :: env_remote where
  "remote_env =
     \<lparr>environment_get_all =
        Inr [\<lparr>name = ''env1'', reference = ''UNIX_HOST_ENVIRONMENT-1'', active_branch = None\<rparr>],
      environment_refresh = None,
      last_job = ''JOB-1''\<rparr>"

definition ext_refresh_slow :: ext where
  "ext_refresh_slow =
     (ext_of [(''a'', eng_a)])
       \<lparr>submit := refresh_env remote_env eng_a ''env1'',
        job_get := (\<lambda>n r. if n < 2 then Inr ''RUNNING'' else Inr ''COMPLETED'')\<rparr>"

definition ext_refresh_flaky :: ext where
  "ext_refresh_flaky =
     (ext_of [(''a'', eng_a)])
       \<lparr>submit := refresh_env remote_env eng_a ''env1'',
        job_get := (\<lambda>n r. if n = 0 then Inr ''RUNNING''
                           else if n = 1 then Inl HttpError else Inr ''COMPLETED'')\<rparr>"

text \<open>The session after that refresh, before the first poll.\<close>

definition tracked_a :: session where
  "tracked_a = \<lparr>jobs = [(''a.example'', ''JOB-1'')], clock = 0, trace = []\<rparr>"

section \<open>Dictionaries\<close>

lemma dict_keys_set: "set (dict_keys d) = fst ` set d"
  by (induction d) auto

lemma dict_keys_distinct: "distinct (dict_keys d)"
  by (induction d) simp_all

section \<open>Name lookups\<close>

lemma find_obj_by_name_loop_False:
  "find_obj_by_name_loop PyFalse nm objs =
     (case List.find (\<lambda>obj. name obj = nm) objs of
        Some obj \<Rightarrow> Inr (Obj obj)
      | None \<Rightarrow> Inl DlpxException)"
  by (induction objs) simp_all

lemma find_None_name: "(List.find (\<lambda>obj. name obj = nm) objs = None) = (nm \<notin> name ` set objs)"
  by (auto simp: find_None_iff)

text \<open>
  C9. With \<^verbatim>\<open>active_branch=False\<close>, for every engine and class whose
  \<^verbatim>\<open>get_all\<close> returns a list, \<^verbatim>\<open>find_obj_by_name\<close> returns the first object of the
  list whose name is \<^verbatim>\<open>obj_name\<close>; it raises exactly when no object of the list has
  that name, and what it raises then is \<^verbatim>\<open>DlpxException\<close>.
\<close>

theorem find_obj_by_name_first_match:
  assumes "get_all engine = Inr objs"
  shows "find_obj_by_name engine get_all nm PyFalse =
           (case List.find (\<lambda>obj. name obj = nm) objs of
              Some obj \<Rightarrow> Inr (Obj obj)
            | None \<Rightarrow> Inl DlpxException)
       \<and> (find_obj_by_name engine get_all nm PyFalse = Inl DlpxException) = (nm \<notin> name ` set objs)
       \<and> isl (find_obj_by_name engine get_all nm PyFalse) = (nm \<notin> name ` set objs)"
proof -
  have eq: "find_obj_by_name engine get_all nm PyFalse = find_obj_by_name_loop PyFalse nm objs"
    using assms by (simp add: find_obj_by_name_def)
  show ?thesis
    unfolding eq find_obj_by_name_loop_False find_None_name [symmetric]
    by (simp split: option.splits)
qed

theorem find_obj_by_name_first_match_witness:
  "find_obj_by_name ()
      (\<lambda>_. Inr [\<lparr>name = ''a'', reference = ''R-1'', active_branch = None\<rparr>,
                \<lparr>name = ''b'', reference = ''R-2'', active_branch = None\<rparr>,
                \<lparr>name = ''b'', reference = ''R-3'', active_branch = None\<rparr>]) ''b'' PyFalse
     = Inr (Obj \<lparr>name = ''b'', reference = ''R-2'', active_branch = None\<rparr>)
   \<and> find_obj_by_name ()
      (\<lambda>_. Inr [\<lparr>name = ''a'', reference = ''R-1'', active_branch = None\<rparr>]) ''b'' PyFalse
     = Inl DlpxException"
proof -
  let ?a = "\<lparr>name = ''a'', reference = ''R-1'', active_branch = None\<rparr>"
  let ?objs = "[?a, \<lparr>name = ''b'', reference = ''R-2'', active_branch = None\<rparr>,
                \<lparr>name = ''b'', reference = ''R-3'', active_branch = None\<rparr>]"
  have 1: "find_obj_by_name () (\<lambda>_. Inr ?objs) ''b'' PyFalse
             = Inr (Obj \<lparr>name = ''b'', reference = ''R-2'', active_branch = None\<rparr>)"
    using find_obj_by_name_first_match
      [where get_all = "\<lambda>_. Inr ?objs" and engine = "()" and objs = "?objs" and nm = "''b''"]
    by simp
  have 2: "find_obj_by_name () (\<lambda>_. Inr [?a]) ''b'' PyFalse = Inl DlpxException"
    using find_obj_by_name_first_match
      [where get_all = "\<lambda>_. Inr [?a]" and engine = "()" and objs = "[?a]" and nm = "''b''"]
    by simp
  from 1 2 show ?thesis by (rule conjI)
qed

text \<open>
  C10. For every result list of \<^verbatim>\<open>sourceconfig.get_all\<close>,
  \<^verbatim>\<open>find_sourceconfig\<close> returns an object only when that object is the first of the
  list and has the name asked for; when the first element has another name it raises
  \<^verbatim>\<open>DlpxException\<close> whatever follows, a later match included; and for the empty list
  it returns \<^verbatim>\<open>None\<close>.
\<close>

theorem find_sourceconfig_first_only:
  assumes "get_all engine env = Inr objs"
  shows "(find_sourceconfig engine get_all nm env = Inr (Some obj)
            \<longrightarrow> objs \<noteq> [] \<and> obj = hd objs \<and> name obj = nm)
       \<and> (objs \<noteq> [] \<and> name (hd objs) = nm
            \<longrightarrow> find_sourceconfig engine get_all nm env = Inr (Some (hd objs)))
       \<and> (objs \<noteq> [] \<and> name (hd objs) \<noteq> nm
            \<longrightarrow> find_sourceconfig engine get_all nm env = Inl DlpxException)
       \<and> (objs = [] \<longrightarrow> find_sourceconfig engine get_all nm env = Inr None)"
proof (cases objs)
  case Nil
  then show ?thesis using assms by (simp add: find_sourceconfig_def)
next
  case (Cons a list)
  then show ?thesis using assms by (simp add: find_sourceconfig_def) blast
qed

theorem find_sourceconfig_first_only_witness:
  "find_sourceconfig () (\<lambda>_ _. Inr [\<lparr>name = ''a'', reference = ''R-1'', active_branch = None\<rparr>,
                                   \<lparr>name = ''orcl'', reference = ''R-2'', active_branch = None\<rparr>])
      ''orcl'' ''ENV-1'' = Inl DlpxException
   \<and> find_sourceconfig () (\<lambda>_ _. Inr []) ''orcl'' ''ENV-1'' = Inr None"
proof -
  let ?a = "\<lparr>name = ''a'', reference = ''R-1'', active_branch = None\<rparr>"
  let ?objs = "[?a, \<lparr>name = ''orcl'', reference = ''R-2'', active_branch = None\<rparr>]"
  have 1: "find_sourceconfig () (\<lambda>_ _. Inr ?objs) ''orcl'' ''ENV-1'' = Inl DlpxException"
    using find_sourceconfig_first_only
      [where get_all = "\<lambda>_ _. Inr ?objs" and engine = "()" and env = "''ENV-1''"
         and objs = "?objs" and nm = "''orcl''" and obj = "?a"]
    by simp
  have 2: "find_sourceconfig () (\<lambda>_ _. Inr []) ''orcl'' ''ENV-1'' = Inr None"
    using find_sourceconfig_first_only
      [where get_all = "\<lambda>_ _. Inr []" and engine = "()" and env = "''ENV-1''"
         and objs = "[]" and nm = "''orcl''" and obj = "?a"]
    by simp
  from 1 2 show ?thesis by (rule conjI)
qed

section \<open>Starting the workers\<close>

lemma start_all_ok:
  assumes "\<forall>k \<in> set ks. getitem X k = Inr (f k)"
  shows "start_all X ks engine threads =
           (None, (if ks = [] then engine else Some (f (last ks))), threads @ map (\<lambda>k. Some (f k)) ks)"
  using assms by (induction ks arbitrary: engine threads) auto

text \<open>
  With \<^verbatim>\<open>--all\<close>, when the session object answers every key, js\_container.py starts
  one worker per key of the configuration, in order, and joins each.
\<close>

lemma js_container_run_job_all:
  assumes "all_flag A" and "\<forall>k \<in> set (dict_keys conf). getitem X k = Inr (f k)"
  shows "js_container_run_job X A conf =
           (None, \<lparr>started = map (\<lambda>k. Some (f k)) (dict_keys conf),
                   joined = map (\<lambda>k. Some (f k)) (dict_keys conf),
                   messages = [ExecutingAll]\<rparr>)"
  using assms by (simp add: js_container_run_job_def start_all_ok [where f = f])

text \<open>
  dx\_replication.py under the same conditions starts one worker more: the last engine of
  the configuration gets a second worker (and an empty configuration gets one worker on
  \<^verbatim>\<open>None\<close>).
\<close>

lemma dx_replication_run_job_all:
  assumes "all_flag A" and "\<forall>k \<in> set (dict_keys conf). getitem X k = Inr (f k)"
  shows "length (started (snd (dx_replication_run_job X A conf))) = Suc (length (dict_keys conf))"
    and "dict_keys conf \<noteq> [] \<Longrightarrow>
         started (snd (dx_replication_run_job X A conf)) =
           map (\<lambda>k. Some (f k)) (dict_keys conf) @ [Some (f (last (dict_keys conf)))]"
  using assms by (simp_all add: dx_replication_run_job_def start_all_ok [where f = f])

text \<open>
  C2. dx\_replication.py with \<^verbatim>\<open>--all\<close> and one configured engine: two workers are
  started and joined, both on that engine, where the claim has exactly one. js\_container.py
  on the same input starts and joins one.
\<close>

theorem dx_replication_all_starts_one_too_many:
  "dx_replication_run_job (ext_of [(''a'', eng_a)]) (args_of True None) [(''a'', eng_a)] =
     (None, \<lparr>started = [Some eng_a, Some eng_a], joined = [Some eng_a, Some eng_a],
             messages = [ExecutingAll]\<rparr>)
   \<and> dx_jobs_run_job (ext_of [(''a'', eng_a)]) (args_of True None) [(''a'', eng_a)] =
     (None, \<lparr>started = [Some eng_a, Some eng_a], joined = [Some eng_a, Some eng_a],
             messages = [ExecutingAll]\<rparr>)
   \<and> js_container_run_job (ext_of [(''a'', eng_a)]) (args_of True None) [(''a'', eng_a)] =
     (None, \<lparr>started = [Some eng_a], joined = [Some eng_a], messages = [ExecutingAll]\<rparr>)"
  by (simp add: dx_replication_run_job_def dx_jobs_run_job_def js_container_run_job_def
        ext_of_def args_of_def )

text \<open>
  C4. js\_container.py with \<^verbatim>\<open>--engine missing\<close> and a configuration that has no such
  engine: \<^verbatim>\<open>run_job\<close> reports the name, raises nothing, and starts and joins one worker
  on \<^verbatim>\<open>None\<close>; that worker dies of a \<^verbatim>\<open>TypeError\<close>, and the process ends with status
  0. dx\_environment.py does the same. dx\_jobs.py raises \<^verbatim>\<open>DlpxException\<close> there and
  starts no worker.
\<close>

theorem js_container_unknown_engine_starts_worker:
  "js_container_run_job (ext_of [(''a'', eng_a)]) (args_of False (Some ''missing'')) [(''a'', eng_a)] =
     (None, \<lparr>started = [None], joined = [None], messages = [EngineNotFound ''missing'']\<rparr>)
   \<and> js_container_main_workflow (ext_of [(''a'', eng_a)]) (args_of False (Some ''missing''))
        [(''a'', eng_a)] fuel None session0 = Some (Some TypeError, session0)
   \<and> fst (js_container_main (ext_of [(''a'', eng_a)]) (args_of False (Some ''missing''))) = 0
   \<and> dx_environment_run_job (ext_of [(''a'', eng_a)]) (args_of False (Some ''missing'')) [(''a'', eng_a)] =
     (None, \<lparr>started = [None], joined = [None], messages = [EngineNotFound ''missing'']\<rparr>)
   \<and> dx_jobs_run_job (ext_of [(''a'', eng_a)]) (args_of False (Some ''missing'')) [(''a'', eng_a)] =
     (Some DlpxException, \<lparr>started = [], joined = [], messages = []\<rparr>)"
  by (simp add: js_container_run_job_def js_container_main_workflow_def js_container_main_def
        dx_environment_run_job_def dx_jobs_run_job_def ext_of_def args_of_def)

text \<open>
  The search reads the first key only: whatever follows it, a default engine included,
  does not change the result.
\<close>

lemma find_default_first_only:
  "find_default conf (k # ks) engine = find_default conf [k] engine"
  by simp

text \<open>
  Without \<^verbatim>\<open>--all\<close> and \<^verbatim>\<open>--engine\<close>, js\_container.py selects the first engine of
  the configuration when that one is marked default, and raises the no-default-engine
  \<^verbatim>\<open>DlpxException\<close> with no worker started when no engine of the configuration is
  marked default.
\<close>

lemma js_container_default_first:
  assumes "\<not> all_flag A" and "engine_arg A = None" and "default_flag eng = ''true''"
  shows "js_container_run_job X A ((k, eng) # conf) =
           (None, \<lparr>started = [Some eng], joined = [Some eng],
                   messages = [ExecutingDefault (hostname eng)]\<rparr>)"
  using assms by (simp add: js_container_run_job_def )

lemma find_default_none:
  assumes "\<forall>p \<in> set conf. default_flag (snd p) \<noteq> ''true''" and "set ks \<subseteq> fst ` set conf"
  shows "find_default conf ks None = (None, None, [])"
proof (cases ks)
  case Nil
  then show ?thesis by simp
next
  case (Cons k rest)
  with assms(2) obtain eng where m: "map_of conf k = Some eng"
    by (cases "map_of conf k") (auto simp: map_of_eq_None_iff)
  then have "(k, eng) \<in> set conf" by (rule map_of_SomeD)
  with assms(1) have "default_flag eng \<noteq> ''true''" by force
  with Cons m show ?thesis by simp
qed

lemma js_container_no_default:
  assumes "\<not> all_flag A" and "engine_arg A = None"
    and "\<forall>p \<in> set conf. default_flag (snd p) \<noteq> ''true''"
  shows "js_container_run_job X A conf =
           (Some DlpxException, \<lparr>started = [], joined = [], messages = []\<rparr>)"
proof -
  have "find_default conf (dict_keys conf) None = (None, None, [])"
    using assms(3) by (rule find_default_none) (simp add: dict_keys_set)
  with assms(1,2) show ?thesis by (simp add: js_container_run_job_def)
qed

text \<open>
  C5. js\_container.py without \<^verbatim>\<open>--all\<close> and \<^verbatim>\<open>--engine\<close>, on a configuration whose
  second engine is the one marked default: \<^verbatim>\<open>run_job\<close> raises the no-default-engine
  \<^verbatim>\<open>DlpxException\<close> and starts no worker, where the claim has the default engine selected.
  With the same two engines in the other order the default engine is selected.
\<close>

theorem js_container_default_not_first_is_missed:
  "js_container_run_job (ext_of [(''a'', eng_a), (''b'', eng_b)]) (args_of False None)
       [(''a'', eng_a), (''b'', eng_b)] =
     (Some DlpxException, \<lparr>started = [], joined = [], messages = []\<rparr>)
   \<and> js_container_run_job (ext_of [(''b'', eng_b), (''a'', eng_a)]) (args_of False None)
       [(''b'', eng_b), (''a'', eng_a)] =
     (None, \<lparr>started = [Some eng_b], joined = [Some eng_b],
             messages = [ExecutingDefault ''b.example'']\<rparr>)
   \<and> dx_replication_run_job (ext_of [(''a'', eng_a), (''b'', eng_b)]) (args_of False None)
       [(''a'', eng_a), (''b'', eng_b)] =
     (Some DlpxException, \<lparr>started = [], joined = [], messages = []\<rparr>)"
  by (simp add: js_container_run_job_def dx_replication_run_job_def ext_of_def args_of_def
         eng_a_def eng_b_def)

section \<open>The exit status\<close>

text \<open>The exit status of js\_container.py is a function of how \<^verbatim>\<open>run_job\<close> ended alone.\<close>

lemma js_container_main_status:
  assumes "get_config X (config_arg A) = Inr conf"
  shows "fst (js_container_main X A) = js_container_exit_status (fst (js_container_run_job X A conf))"
  using assms by (simp add: js_container_main_def split: prod.splits)

text \<open>
  Which workers \<^verbatim>\<open>run_job\<close> starts and joins, what it raises and the exit status of
  the process depend on the configuration, the command line and the subscript of the
  session object only: two runs that differ in what the operations and the job fetches
  of the engines do start and join the same workers and end with the same status.
\<close>

lemma js_container_run_job_ignores_workers:
  assumes "getitem X = getitem Y"
  shows "js_container_run_job X A conf = js_container_run_job Y A conf"
proof -
  have "start_all X ks engine threads = start_all Y ks engine threads" for ks engine threads
    using assms by (induction ks arbitrary: engine threads) (simp_all split: sum.splits)
  then show ?thesis by (simp add: js_container_run_job_def)
qed

lemma js_container_main_ignores_workers:
  assumes "getitem X = getitem Y" and "get_config X = get_config Y"
  shows "js_container_main X A = js_container_main Y A"
  unfolding js_container_main_def assms(2) js_container_run_job_ignores_workers [OF assms(1)] ..

text \<open>
  C1. js\_container.py with \<^verbatim>\<open>--engine a\<close>. On an engine that rejects the creation
  of the container, the one worker ends in its submission with the \<^verbatim>\<open>sys.exit(1)\<close> of
  \<^verbatim>\<open>create_container\<close>; on an engine whose job status cannot be fetched, it ends its
  poll loop with \<^verbatim>\<open>sys.exit(1)\<close> after the first \<^verbatim>\<open>job.get\<close>, its job still in the
  table. In both runs the process ends with status 0, where the claim has a status
  other than 0.
\<close>

theorem js_container_exit_zero_after_worker_failure:
  "js_container_main ext_rejecting (args_of False (Some ''a'')) =
     (0, \<lparr>started = [Some eng_a], joined = [Some eng_a], messages = [ExecutingEngine ''a'']\<rparr>)
   \<and> js_container_main_workflow ext_rejecting (args_of False (Some ''a'')) [(''a'', eng_a)]
        (Suc fuel) (Some eng_a) session0 = Some (Some (SystemExit 1), session0)
   \<and> js_container_main ext_unreachable (args_of False (Some ''a'')) =
     (0, \<lparr>started = [Some eng_a], joined = [Some eng_a], messages = [ExecutingEngine ''a'']\<rparr>)
   \<and> js_container_main_workflow ext_unreachable (args_of False (Some ''a'')) [(''a'', eng_a)]
        (Suc fuel) (Some eng_a) session0 =
     Some (Some (SystemExit 1),
           \<lparr>jobs = [(''a.example'', ''JOB-1'')], clock = 1,
            trace = [Fetch ''a.example'' (Inl HttpError)]\<rparr>)"
  by (simp add: js_container_main_def js_container_run_job_def js_container_main_workflow_def
        js_container_caught_def ext_unreachable_def ext_rejecting_def ext_of_def args_of_def
        session0_def create_container_def build_ds_params_def find_obj_by_name_def
        remote_rejecting_def)

section \<open>The place of the sleep in js\_container.py\<close>

text \<open>
  In js\_container.py the \<^verbatim>\<open>sleep\<close> stands inside the loop over the keys. On a job
  table of two running jobs one pass would therefore sleep twice, once after each job,
  where dx\_environment.py sleeps once, after the pass. No operation of js\_container.py
  puts a job into the table, so no run of the script reaches such a table.
\<close>

lemma js_container_poll_two_jobs:
  "js_container_poll ext_running (args_of False None) (dict_keys (jobs two_jobs)) 0 two_jobs =
     (None, \<lparr>jobs = [(''k1'', ''JOB-1''), (''k2'', ''JOB-2'')], clock = 2,
             trace = [Fetch ''k1'' (Inr ''RUNNING''), Running 1, Sleep ''10'',
                      Fetch ''k2'' (Inr ''RUNNING''), Running 2, Sleep ''10'']\<rparr>)
   \<and> dx_environment_cycle ext_running (args_of False None) two_jobs =
     (None, \<lparr>jobs = [(''k1'', ''JOB-1''), (''k2'', ''JOB-2'')], clock = 2,
             trace = [Fetch ''k1'' (Inr ''RUNNING''), Fetch ''k2'' (Inr ''RUNNING''),
                      Running 2, Sleep ''10'']\<rparr>)"
  by (simp add: dx_environment_cycle_def ext_running_def ext_of_def args_of_def two_jobs_def
        default_poll_def js_container_count_def terminal_states_def  sublist_code)

section \<open>The events of a poll pass and of the loop\<close>

lemma polled_append: "polled (a @ b) = polled a @ polled b"
  by (induction a rule: polled.induct) simp_all

lemma retired_append: "retired (a @ b) = retired a @ retired b"
  by (induction a rule: retired.induct) simp_all

lemma failures_append: "failures (a @ b) = failures a @ failures b"
  by (induction a rule: failures.induct) simp_all

lemma retired_subset_polled: "set (retired evs) \<subseteq> set (polled evs)"
  by (induction evs rule: retired.induct) auto

lemma no_repoll_append:
  "no_repoll (a @ b) = (no_repoll a \<and> no_repoll b \<and> set (retired a) \<inter> set (polled b) = {})"
  by (induction a rule: no_repoll.induct) (auto simp: polled_append)

lemma no_repoll_split:
  "no_repoll (pre @ Fetch k (Inr st) # post) \<Longrightarrow> st \<in> set terminal_states \<Longrightarrow> k \<notin> set (polled post)"
  by (simp add: no_repoll_append)

lemma polled_mem: "(k \<in> set (polled evs)) = (\<exists>r. Fetch k r \<in> set evs)"
  by (induction evs rule: polled.induct) auto

lemma retired_mem:
  "(k \<in> set (retired evs)) = (\<exists>st. Fetch k (Inr st) \<in> set evs \<and> st \<in> set terminal_states)"
  by (induction evs rule: retired.induct) auto

lemma failures_mem: "((k, e) \<in> set (failures evs)) = (Fetch k (Inl e) \<in> set evs)"
  by (induction evs rule: failures.induct) auto


lemma js_container_poll_step:
  assumes "js_container_poll X A (j # rest) i s = (r, s')"
  shows "(r = Some KeyError \<and> s' = s)
   \<or> (\<exists>ref e. map_of (jobs s) j = Some ref \<and> r = Some e
         \<and> s' = s\<lparr>clock := Suc (clock s), trace := trace s @ [Fetch j (Inl e)]\<rparr>)
   \<or> (\<exists>st s2 mid. (mid = [] \<or> mid = [Sleep (poll A)])
         \<and> jobs s2 = (if st \<in> set terminal_states then dict_del j (jobs s) else jobs s)
         \<and> trace s2 = trace s @ [Fetch j (Inr st), Running (js_container_count st i)] @ mid
         \<and> ((\<exists>e. r = Some e \<and> s' = s2 \<and> mid = [])
            \<or> js_container_poll X A rest (js_container_count st i) s2 = (r, s')))"
proof (cases "map_of (jobs s) j")
  case None
  with assms show ?thesis by simp
next
  case (Some ref)
  show ?thesis
  proof (cases "job_get X (clock s) ref")
    case (Inl e)
    with Some assms show ?thesis by auto
  next
    case (Inr st)
    define s1 where "s1 = s\<lparr>clock := Suc (clock s),
                           jobs := (if st \<in> set terminal_states
                                    then dict_del j (jobs s) else jobs s),
                           trace := trace s @ [Fetch j (Inr st), Running (js_container_count st i)]\<rparr>"
    have eq: "js_container_poll X A (j # rest) i s =
       (if jobs s1 \<noteq> [] then
          (case sleep_float X (poll A) of
             Some e \<Rightarrow> (Some e, s1)
           | None \<Rightarrow> js_container_poll X A rest (js_container_count st i)
                        (s1\<lparr>trace := trace s1 @ [Sleep (poll A)]\<rparr>))
        else js_container_poll X A rest (js_container_count st i) s1)"
      using Some Inr unfolding s1_def by (simp add: Let_def)
    have j1: "jobs s1 = (if st \<in> set terminal_states then dict_del j (jobs s) else jobs s)"
      and t1: "trace s1 = trace s @ [Fetch j (Inr st), Running (js_container_count st i)]"
      by (simp_all add: s1_def)
    show ?thesis
    proof (cases "jobs s1 \<noteq> []")
      case False
      with eq assms have "js_container_poll X A rest (js_container_count st i) s1 = (r, s')" by simp
      with j1 t1 show ?thesis by (intro disjI2) (rule exI [of _ st], rule exI [of _ s1], rule exI [of _ "[]"], simp)
    next
      case True
      show ?thesis
      proof (cases "sleep_float X (poll A)")
        case (Some e)
        with True eq assms have "r = Some e" "s' = s1" by simp_all
        with j1 t1 show ?thesis by (intro disjI2) (rule exI [of _ st], rule exI [of _ s1], rule exI [of _ "[]"], simp)
      next
        case None
        let ?s2 = "s1\<lparr>trace := trace s1 @ [Sleep (poll A)]\<rparr>"
        from None True eq assms
        have "js_container_poll X A rest (js_container_count st i) ?s2 = (r, s')" by simp
        moreover have "jobs ?s2 = (if st \<in> set terminal_states then dict_del j (jobs s) else jobs s)"
          using j1 by simp
        moreover have "trace ?s2 = trace s @ [Fetch j (Inr st), Running (js_container_count st i)] @ [Sleep (poll A)]"
          using t1 by simp
        ultimately show ?thesis
          by (intro disjI2) (rule exI [of _ st], rule exI [of _ ?s2], rule exI [of _ "[Sleep (poll A)]"], simp)
      qed
    qed
  qed
qed

lemma events_ok_mono: "events_ok K s r s' evs \<Longrightarrow> K \<subseteq> K' \<Longrightarrow> events_ok K' s r s' evs"
  unfolding events_ok_def by blast

lemma events_ok_Nil: "events_ok K s r s []"
  by (simp add: events_ok_def)

lemma filter_retired_append:
  "filter (\<lambda>p. fst p \<notin> set (retired b)) (filter (\<lambda>p. fst p \<notin> set (retired a)) xs) =
   filter (\<lambda>p. fst p \<notin> set (retired (a @ b))) xs"
  by (induction xs) (simp_all add: retired_append)

lemma events_ok_prepend:
  assumes ok: "events_ok K s2 r s' evs2"
    and tr: "trace s2 = trace s @ front"
    and jb: "jobs s2 = filter (\<lambda>p. fst p \<notin> set (retired front)) (jobs s)"
    and nf: "failures front = []"
    and nr: "no_repoll front"
    and dj: "set (retired front) \<inter> K = {}"
  shows "events_ok (set (polled front) \<union> K) s r s' (front @ evs2)"
proof -
  from ok have t2: "trace s' = trace s2 @ evs2"
    and p2: "set (polled evs2) \<subseteq> K"
    and j2: "jobs s' = filter (\<lambda>p. fst p \<notin> set (retired evs2)) (jobs s2)"
    and n2: "no_repoll evs2"
    and f2: "failures evs2 = []
         \<or> (\<exists>pre k e. evs2 = pre @ [Fetch k (Inl e)] \<and> failures pre = [] \<and> r = Some e
               \<and> k \<in> fst ` set (jobs s'))"
    unfolding events_ok_def by blast+
  have 1: "trace s' = trace s @ front @ evs2" using t2 tr by simp
  have 2: "set (polled (front @ evs2)) \<subseteq> set (polled front) \<union> K"
    using p2 by (auto simp: polled_append)
  have 3: "jobs s' = filter (\<lambda>p. fst p \<notin> set (retired (front @ evs2))) (jobs s)"
    unfolding j2 jb by (rule filter_retired_append)
  have 4: "no_repoll (front @ evs2)"
    using nr n2 p2 dj by (auto simp: no_repoll_append)
  have 5: "failures (front @ evs2) = []
         \<or> (\<exists>pre k e. front @ evs2 = pre @ [Fetch k (Inl e)] \<and> failures pre = [] \<and> r = Some e
               \<and> k \<in> fst ` set (jobs s'))"
    using f2
  proof
    assume "failures evs2 = []"
    then show ?thesis using nf by (simp add: failures_append)
  next
    assume "\<exists>pre k e. evs2 = pre @ [Fetch k (Inl e)] \<and> failures pre = [] \<and> r = Some e
               \<and> k \<in> fst ` set (jobs s')"
    then obtain pre k e where "evs2 = pre @ [Fetch k (Inl e)]" "failures pre = []" "r = Some e"
      "k \<in> fst ` set (jobs s')" by blast
    then have "front @ evs2 = (front @ pre) @ [Fetch k (Inl e)] \<and> failures (front @ pre) = []
        \<and> r = Some e \<and> k \<in> fst ` set (jobs s')"
      using nf by (simp add: failures_append)
    then show ?thesis by blast
  qed
  from 1 2 3 4 5 show ?thesis unfolding events_ok_def by blast
qed

lemma js_container_poll_events:
  assumes "js_container_poll X A ks i s = (r, s')" and "distinct ks"
  shows "\<exists>evs. events_ok (set ks) s r s' evs"
  using assms
proof (induction ks arbitrary: i s)
  case Nil
  then show ?case by (auto intro: events_ok_Nil)
next
  case (Cons j rest)
  from Cons.prems(2) have jn: "j \<notin> set rest" and dr: "distinct rest" by simp_all
  from js_container_poll_step [OF Cons.prems(1)]
  consider
      (keyerror) "r = Some KeyError" "s' = s"
    | (failed) ref e where "map_of (jobs s) j = Some ref" "r = Some e"
         "s' = s\<lparr>clock := Suc (clock s), trace := trace s @ [Fetch j (Inl e)]\<rparr>"
    | (fetched) st s2 mid where "mid = [] \<or> mid = [Sleep (poll A)]"
         "jobs s2 = (if st \<in> set terminal_states then dict_del j (jobs s) else jobs s)"
         "trace s2 = trace s @ [Fetch j (Inr st), Running (js_container_count st i)] @ mid"
         "(\<exists>e. r = Some e \<and> s' = s2 \<and> mid = [])
            \<or> js_container_poll X A rest (js_container_count st i) s2 = (r, s')"
    by blast
  then show ?case
  proof cases
    case keyerror
    then show ?thesis by (auto intro: events_ok_Nil)
  next
    case failed
    from failed(1) have "j \<in> fst ` set (jobs s)" by (force dest: map_of_SomeD)
    with failed have "events_ok (set (j # rest)) s r s' [Fetch j (Inl e)]"
      by (simp add: events_ok_def)
    then show ?thesis ..
  next
    case fetched
    let ?front = "[Fetch j (Inr st), Running (js_container_count st i)] @ mid"
    have pf: "polled ?front = [j]" using fetched(1) by auto
    have rf: "retired ?front = (if st \<in> set terminal_states then [j] else [])"
      using fetched(1) by auto
    have ff: "failures ?front = []" using fetched(1) by auto
    have nf: "no_repoll ?front" using fetched(1) by auto
    have jf: "jobs s2 = filter (\<lambda>p. fst p \<notin> set (retired ?front)) (jobs s)"
      unfolding rf using fetched(2) by (simp add: dict_del_def)
    from fetched(4) show ?thesis
    proof
      assume "\<exists>e. r = Some e \<and> s' = s2 \<and> mid = []"
      then have "events_ok (set (j # rest)) s r s' ?front"
        using fetched(3) jf pf ff nf unfolding events_ok_def by auto
      then show ?thesis ..
    next
      assume "js_container_poll X A rest (js_container_count st i) s2 = (r, s')"
      from Cons.IH [OF this dr] obtain evs2 where ok2: "events_ok (set rest) s2 r s' evs2" ..
      have "set (retired ?front) \<inter> set rest = {}" unfolding rf using jn by auto
      from events_ok_prepend [OF ok2 fetched(3) jf ff nf this]
      have "events_ok (set (j # rest)) s r s' (?front @ evs2)" unfolding pf by simp
      then show ?thesis ..
    qed
  qed
qed

lemma session_jobs_same [simp]: "s\<lparr>jobs := jobs s\<rparr> = (s::session)"
  by simp

lemma events_ok_retired_gone:
  assumes "events_ok K s r s' evs"
  shows "set (retired evs) \<inter> fst ` set (jobs s') = {}"
proof -
  from assms have "jobs s' = filter (\<lambda>p. fst p \<notin> set (retired evs)) (jobs s)"
    unfolding events_ok_def by blast
  then show ?thesis by auto
qed

lemma events_ok_jobs_subset:
  assumes "events_ok K s r s' evs"
  shows "fst ` set (jobs s') \<subseteq> fst ` set (jobs s)"
proof -
  from assms have "jobs s' = filter (\<lambda>p. fst p \<notin> set (retired evs)) (jobs s)"
    unfolding events_ok_def by blast
  then show ?thesis by auto
qed

lemma events_ok_None_clean:
  assumes "events_ok K s None s' evs"
  shows "failures evs = []"
  using assms unfolding events_ok_def by blast

text \<open>One iteration of the while loop after the operation: a pass, then the rest of the loop.\<close>

lemma js_container_iteration_events:
  assumes pass: "js_container_poll X A (dict_keys js) 0 (s\<lparr>jobs := js\<rparr>) = (r1, s1)"
    and stop: "r1 \<noteq> None \<Longrightarrow> r = r1 \<and> s' = s1"
    and rest: "r1 = None \<Longrightarrow> \<exists>evs2. events_ok (fst ` set (jobs s1)) s1 r s' evs2"
  shows "\<exists>evs. events_ok (fst ` set js) (s\<lparr>jobs := js\<rparr>) r s' evs"
proof -
  from js_container_poll_events [OF pass dict_keys_distinct]
  obtain evs1 where ok1: "events_ok (fst ` set js) (s\<lparr>jobs := js\<rparr>) r1 s1 evs1"
    by (auto simp: dict_keys_set)
  show ?thesis
  proof (cases r1)
    case (Some e)
    with stop ok1 show ?thesis by auto
  next
    case None
    from rest [OF None] obtain evs2 where ok2: "events_ok (fst ` set (jobs s1)) s1 r s' evs2" ..
    from ok1 None have ok1': "events_ok (fst ` set js) (s\<lparr>jobs := js\<rparr>) None s1 evs1" by simp
    from ok1 have t1: "trace s1 = trace (s\<lparr>jobs := js\<rparr>) @ evs1"
      and j1: "jobs s1 = filter (\<lambda>p. fst p \<notin> set (retired evs1)) (jobs (s\<lparr>jobs := js\<rparr>))"
      and n1: "no_repoll evs1"
      and p1: "set (polled evs1) \<subseteq> fst ` set js"
      unfolding events_ok_def by blast+
    from events_ok_prepend [OF ok2 t1 j1 events_ok_None_clean [OF ok1'] n1
        events_ok_retired_gone [OF ok1]]
    have "events_ok (set (polled evs1) \<union> fst ` set (jobs s1)) (s\<lparr>jobs := js\<rparr>) r s' (evs1 @ evs2)" .
    moreover have "set (polled evs1) \<union> fst ` set (jobs s1) \<subseteq> fst ` set js"
      using p1 events_ok_jobs_subset [OF ok1] by auto
    ultimately have "events_ok (fst ` set js) (s\<lparr>jobs := js\<rparr>) r s' (evs1 @ evs2)"
      by (rule events_ok_mono)
    then show ?thesis ..
  qed
qed

lemma js_container_loop_events:
  assumes "js_container_loop X A fuel False s = Some (r, s')"
  shows "\<exists>evs. events_ok (fst ` set (jobs s)) s r s' evs"
  using assms
proof (induction fuel arbitrary: s)
  case 0
  then show ?case by (auto split: if_splits intro: events_ok_Nil)
next
  case (Suc fuel)
  show ?case
  proof (cases "jobs s = []")
    case True
    with Suc.prems show ?thesis by (auto intro: events_ok_Nil)
  next
    case False
    obtain r1 s1 where pass: "js_container_poll X A (dict_keys (jobs s)) 0 (s\<lparr>jobs := jobs s\<rparr>) = (r1, s1)"
      by (cases "js_container_poll X A (dict_keys (jobs s)) 0 (s\<lparr>jobs := jobs s\<rparr>)") blast
    have stop: "r1 \<noteq> None \<Longrightarrow> r = r1 \<and> s' = s1"
      using Suc.prems False pass by auto
    have rest: "r1 = None \<Longrightarrow> \<exists>evs2. events_ok (fst ` set (jobs s1)) s1 r s' evs2"
    proof -
      assume "r1 = None"
      with Suc.prems False pass have "js_container_loop X A fuel False s1 = Some (r, s')" by simp
      then show ?thesis by (rule Suc.IH)
    qed
    from js_container_iteration_events [OF pass stop rest] show ?thesis by simp
  qed
qed

text \<open>The whole loop, the operation included.\<close>

lemma js_container_loop_events_todo:
  assumes "js_container_loop X A fuel True s = Some (r, s')"
  shows "\<exists>evs js. events_ok (fst ` set js) (s\<lparr>jobs := js\<rparr>) r s' evs"
proof (cases fuel)
  case 0
  with assms show ?thesis by simp
next
  case (Suc n)
  obtain r0 js where sub: "submit X (jobs s) = (r0, js)" by (cases "submit X (jobs s)") blast
  show ?thesis
  proof (cases r0)
    case (Some e)
    with assms Suc sub have "r = Some e" "s' = s\<lparr>jobs := js\<rparr>" by simp_all
    then have "events_ok (fst ` set js) (s\<lparr>jobs := js\<rparr>) r s' []" by (simp add: events_ok_Nil)
    then show ?thesis by blast
  next
    case None
    obtain r1 s1 where pass: "js_container_poll X A (dict_keys js) 0 (s\<lparr>jobs := js\<rparr>) = (r1, s1)"
      by (cases "js_container_poll X A (dict_keys js) 0 (s\<lparr>jobs := js\<rparr>)") blast
    have stop: "r1 \<noteq> None \<Longrightarrow> r = r1 \<and> s' = s1"
      using assms Suc sub None pass by auto
    have rest: "r1 = None \<Longrightarrow> \<exists>evs2. events_ok (fst ` set (jobs s1)) s1 r s' evs2"
    proof -
      assume "r1 = None"
      with assms Suc sub None pass have "js_container_loop X A n False s1 = Some (r, s')" by simp
      then show ?thesis by (rule js_container_loop_events)
    qed
    from js_container_iteration_events [OF pass stop rest] show ?thesis by blast
  qed
qed

section \<open>Retired jobs and failed fetches\<close>


lemma js_container_main_workflow_events:
  assumes "js_container_main_workflow X A conf fuel engine s = Some (r, s')"
  shows "s' = s
       \<or> (\<exists>evs js r0. events_ok (fst ` set js) (s\<lparr>jobs := js\<rparr>) r0 s' evs
             \<and> r = (case r0 of None \<Rightarrow> None
                    | Some e \<Rightarrow> Some (if e \<in> set js_container_caught then SystemExit 1 else e)))"
proof (cases engine)
  case None
  with assms show ?thesis by (simp add: js_container_main_workflow_def)
next
  case (Some eng)
  show ?thesis
  proof (cases "serversess X eng")
    case (Some e)
    with assms \<open>engine = Some eng\<close> show ?thesis
      by (auto simp: js_container_main_workflow_def split: if_splits option.splits)
  next
    case None
    with assms \<open>engine = Some eng\<close>
    obtain r0 where loop: "js_container_loop X A fuel True s = Some (r0, s')"
      and r: "r = (case r0 of None \<Rightarrow> None
                    | Some e \<Rightarrow> Some (if e \<in> set js_container_caught then SystemExit 1 else e))"
      by (auto simp: js_container_main_workflow_def split: option.splits)
    from js_container_loop_events_todo [OF loop] r show ?thesis by blast
  qed
qed

lemma js_container_poll_retires:
  assumes "js_container_poll X A (dict_keys (jobs s)) i s = (r1, s1)"
  shows "\<exists>evs. trace s1 = trace s @ evs \<and>
         (\<forall>k st. Fetch k (Inr st) \<in> set evs \<and> st \<in> set terminal_states
                    \<longrightarrow> k \<notin> fst ` set (jobs s1))"
proof -
  from js_container_poll_events [OF assms dict_keys_distinct]
  obtain evs where ok: "events_ok (set (dict_keys (jobs s))) s r1 s1 evs" ..
  then have tr: "trace s1 = trace s @ evs" unfolding events_ok_def by blast
  have "\<forall>k st. Fetch k (Inr st) \<in> set evs \<and> st \<in> set terminal_states
                    \<longrightarrow> k \<notin> fst ` set (jobs s1)"
  proof (intro allI impI)
    fix k st
    assume "Fetch k (Inr st) \<in> set evs \<and> st \<in> set terminal_states"
    then have "k \<in> set (retired evs)" unfolding retired_mem by blast
    with events_ok_retired_gone [OF ok] show "k \<notin> fst ` set (jobs s1)" by blast
  qed
  with tr show ?thesis by blast
qed

lemma js_container_worker_no_repoll:
  assumes "js_container_main_workflow X A conf fuel engine s = Some (r, s')"
  shows "\<exists>evs. trace s' = trace s @ evs \<and>
         (\<forall>pre k st post. evs = pre @ Fetch k (Inr st) # post \<and> st \<in> set terminal_states
             \<longrightarrow> k \<notin> fst ` set (jobs s') \<and> (\<forall>res. Fetch k res \<notin> set post))"
  using js_container_main_workflow_events [OF assms]
proof
  assume "s' = s"
  then show ?thesis by (intro exI [of _ "[]"]) simp
next
  assume "\<exists>evs js r0. events_ok (fst ` set js) (s\<lparr>jobs := js\<rparr>) r0 s' evs
           \<and> r = (case r0 of None \<Rightarrow> None
                  | Some e \<Rightarrow> Some (if e \<in> set js_container_caught then SystemExit 1 else e))"
  then obtain evs js r0 where ok: "events_ok (fst ` set js) (s\<lparr>jobs := js\<rparr>) r0 s' evs" by blast
  then have tr: "trace s' = trace s @ evs" and nr: "no_repoll evs"
    unfolding events_ok_def by simp_all
  have "\<forall>pre k st post. evs = pre @ Fetch k (Inr st) # post \<and> st \<in> set terminal_states
           \<longrightarrow> k \<notin> fst ` set (jobs s') \<and> (\<forall>res. Fetch k res \<notin> set post)"
  proof (intro allI impI)
    fix pre k st post
    assume a: "evs = pre @ Fetch k (Inr st) # post \<and> st \<in> set terminal_states"
    then have "Fetch k (Inr st) \<in> set evs \<and> st \<in> set terminal_states" by simp
    then have "k \<in> set (retired evs)" unfolding retired_mem by blast
    with events_ok_retired_gone [OF ok] have 1: "k \<notin> fst ` set (jobs s')" by blast
    from a nr have "k \<notin> set (polled post)" by (auto dest: no_repoll_split)
    then have 2: "\<forall>res. Fetch k res \<notin> set post" by (simp add: polled_mem)
    from 1 2 show "k \<notin> fst ` set (jobs s') \<and> (\<forall>res. Fetch k res \<notin> set post)" ..
  qed
  with tr show ?thesis by blast
qed

text \<open>
  C6. In every pass of js\_container.py over the job table, a key whose fetched state is
  \<^verbatim>\<open>CANCELED\<close>, \<^verbatim>\<open>COMPLETED\<close> or \<^verbatim>\<open>FAILED\<close> is out of the table when the pass ends
  (however it ends); and in every run of a worker, whatever the operation and the engine
  do, a key is in the table no more and is never fetched again after the event that
  fetched a terminal state for it.
\<close>

theorem js_container_retired_never_polled_again:
  "(js_container_poll X A (dict_keys (jobs s)) i s = (r1, s1) \<longrightarrow>
      (\<exists>evs. trace s1 = trace s @ evs \<and>
         (\<forall>k st. Fetch k (Inr st) \<in> set evs \<and> st \<in> set terminal_states
                    \<longrightarrow> k \<notin> fst ` set (jobs s1))))
   \<and> (js_container_main_workflow Y B conf fuel engine t = Some (r, t') \<longrightarrow>
      (\<exists>evs. trace t' = trace t @ evs \<and>
         (\<forall>pre k st post. evs = pre @ Fetch k (Inr st) # post \<and> st \<in> set terminal_states
             \<longrightarrow> k \<notin> fst ` set (jobs t') \<and> (\<forall>res. Fetch k res \<notin> set post))))"
proof (rule conjI)
  show "js_container_poll X A (dict_keys (jobs s)) i s = (r1, s1) \<longrightarrow>
      (\<exists>evs. trace s1 = trace s @ evs \<and>
         (\<forall>k st. Fetch k (Inr st) \<in> set evs \<and> st \<in> set terminal_states
                    \<longrightarrow> k \<notin> fst ` set (jobs s1)))"
    by (rule impI) (rule js_container_poll_retires)
  show "js_container_main_workflow Y B conf fuel engine t = Some (r, t') \<longrightarrow>
      (\<exists>evs. trace t' = trace t @ evs \<and>
         (\<forall>pre k st post. evs = pre @ Fetch k (Inr st) # post \<and> st \<in> set terminal_states
             \<longrightarrow> k \<notin> fst ` set (jobs t') \<and> (\<forall>res. Fetch k res \<notin> set post)))"
    by (rule impI) (rule js_container_worker_no_repoll)
qed



section \<open>The same for dx\_jobs.py\<close>

text \<open>
  The loop of dx\_jobs.py deletes a key on a terminal state as that of js\_container.py
  does; its events satisfy the same conditions, and a retired key is never polled again.
\<close>

lemma dx_jobs_poll_events:
  assumes "dx_jobs_poll X ks i s = (r, s')" and "distinct ks"
  shows "\<exists>evs. events_ok (set ks) s r s' evs"
  using assms
proof (induction ks arbitrary: i s)
  case Nil
  then show ?case by (auto intro: events_ok_Nil)
next
  case (Cons j rest)
  from Cons.prems(2) have jn: "j \<notin> set rest" and dr: "distinct rest" by simp_all
  show ?case
  proof (cases "map_of (jobs s) j")
    case None
    with Cons.prems(1) show ?thesis by (auto intro: events_ok_Nil)
  next
    case (Some ref)
    then have jin: "j \<in> fst ` set (jobs s)" by (force dest: map_of_SomeD)
    show ?thesis
    proof (cases "job_get X (clock s) ref")
      case (Inl e)
      with Some Cons.prems(1) jin have "events_ok (set (j # rest)) s r s' [Fetch j (Inl e)]"
        by (auto simp: events_ok_def)
      then show ?thesis ..
    next
      case (Inr st)
      let ?front = "[Fetch j (Inr st), Running (js_container_count st i)]"
      define s2 where "s2 = s\<lparr>clock := Suc (clock s),
                    jobs := (if st \<in> set terminal_states then dict_del j (jobs s) else jobs s),
                    trace := trace s @ ?front\<rparr>"
      from Some Inr Cons.prems(1)
      have rec: "dx_jobs_poll X rest (js_container_count st i) s2 = (r, s')"
        unfolding s2_def by simp
      from Cons.IH [OF rec dr] obtain evs2 where ok2: "events_ok (set rest) s2 r s' evs2" ..
      have tr: "trace s2 = trace s @ ?front" by (simp add: s2_def)
      have rf: "retired ?front = (if st \<in> set terminal_states then [j] else [])" by simp
      have jf: "jobs s2 = filter (\<lambda>p. fst p \<notin> set (retired ?front)) (jobs s)"
        unfolding rf by (simp add: s2_def dict_del_def)
      have ff: "failures ?front = []" by simp
      have nf: "no_repoll ?front" by simp
      have dj: "set (retired ?front) \<inter> set rest = {}" unfolding rf using jn by auto
      from events_ok_prepend [OF ok2 tr jf ff nf dj]
      have "events_ok (set (j # rest)) s r s' (?front @ evs2)" by simp
      then show ?thesis ..
    qed
  qed
qed

lemma dx_jobs_cycle_events:
  assumes "dx_jobs_cycle X A s = (r, s')"
  shows "\<exists>evs. events_ok (fst ` set (jobs s)) s r s' evs"
proof -
  obtain r1 s1 where pass: "dx_jobs_poll X (dict_keys (jobs s)) 0 s = (r1, s1)"
    by (cases "dx_jobs_poll X (dict_keys (jobs s)) 0 s") blast
  from dx_jobs_poll_events [OF pass dict_keys_distinct]
  obtain evs1 where ok1: "events_ok (fst ` set (jobs s)) s r1 s1 evs1"
    by (auto simp: dict_keys_set)
  show ?thesis
  proof (cases r1)
    case (Some e)
    with assms pass have "r = r1" "s' = s1" by (simp_all add: dx_jobs_cycle_def)
    with ok1 show ?thesis by blast
  next
    case None
    with ok1 have cl: "failures evs1 = []" using events_ok_None_clean by blast
    from ok1 have t1: "trace s1 = trace s @ evs1"
      and p1: "set (polled evs1) \<subseteq> fst ` set (jobs s)"
      and j1: "jobs s1 = filter (\<lambda>p. fst p \<notin> set (retired evs1)) (jobs s)"
      and n1: "no_repoll evs1"
      unfolding events_ok_def by blast+
    show ?thesis
    proof (cases "jobs s1 \<noteq> [] \<and> sleep_float X (poll A) = None")
      case False
      with assms pass None have "s' = s1"
        by (auto simp: dx_jobs_cycle_def split: if_splits option.splits)
      with t1 p1 j1 n1 cl have "events_ok (fst ` set (jobs s)) s r s' evs1"
        unfolding events_ok_def by simp
      then show ?thesis ..
    next
      case True
      with assms pass None have s': "s' = s1\<lparr>trace := trace s1 @ [Sleep (poll A)]\<rparr>"
        by (auto simp: dx_jobs_cycle_def)
      with t1 p1 j1 n1 cl have "events_ok (fst ` set (jobs s)) s r s' (evs1 @ [Sleep (poll A)])"
        unfolding events_ok_def
        by (simp add: polled_append retired_append failures_append no_repoll_append)
      then show ?thesis ..
    qed
  qed
qed

lemma dx_jobs_iteration_events:
  assumes cyc: "dx_jobs_cycle X A (s\<lparr>jobs := js\<rparr>) = (r1, s1)"
    and stop: "r1 \<noteq> None \<Longrightarrow> r = r1 \<and> s' = s1"
    and rest: "r1 = None \<Longrightarrow> \<exists>evs2. events_ok (fst ` set (jobs s1)) s1 r s' evs2"
  shows "\<exists>evs. events_ok (fst ` set js) (s\<lparr>jobs := js\<rparr>) r s' evs"
proof -
  from dx_jobs_cycle_events [OF cyc]
  obtain evs1 where ok1: "events_ok (fst ` set js) (s\<lparr>jobs := js\<rparr>) r1 s1 evs1" by auto
  show ?thesis
  proof (cases r1)
    case (Some e)
    with stop ok1 show ?thesis by auto
  next
    case None
    from rest [OF None] obtain evs2 where ok2: "events_ok (fst ` set (jobs s1)) s1 r s' evs2" ..
    from ok1 None have ok1': "events_ok (fst ` set js) (s\<lparr>jobs := js\<rparr>) None s1 evs1" by simp
    from ok1 have t1: "trace s1 = trace (s\<lparr>jobs := js\<rparr>) @ evs1"
      and j1: "jobs s1 = filter (\<lambda>p. fst p \<notin> set (retired evs1)) (jobs (s\<lparr>jobs := js\<rparr>))"
      and n1: "no_repoll evs1"
      and p1: "set (polled evs1) \<subseteq> fst ` set js"
      unfolding events_ok_def by blast+
    from events_ok_prepend [OF ok2 t1 j1 events_ok_None_clean [OF ok1'] n1
        events_ok_retired_gone [OF ok1]]
    have "events_ok (set (polled evs1) \<union> fst ` set (jobs s1)) (s\<lparr>jobs := js\<rparr>) r s' (evs1 @ evs2)" .
    moreover have "set (polled evs1) \<union> fst ` set (jobs s1) \<subseteq> fst ` set js"
      using p1 events_ok_jobs_subset [OF ok1] by auto
    ultimately have "events_ok (fst ` set js) (s\<lparr>jobs := js\<rparr>) r s' (evs1 @ evs2)"
      by (rule events_ok_mono)
    then show ?thesis ..
  qed
qed

lemma dx_jobs_loop_events:
  assumes "dx_jobs_loop X A fuel False s = Some (r, s')"
  shows "\<exists>evs. events_ok (fst ` set (jobs s)) s r s' evs"
  using assms
proof (induction fuel arbitrary: s)
  case 0
  then show ?case by (auto split: if_splits intro: events_ok_Nil)
next
  case (Suc fuel)
  show ?case
  proof (cases "jobs s = []")
    case True
    with Suc.prems show ?thesis by (auto intro: events_ok_Nil)
  next
    case False
    obtain r1 s1 where cyc: "dx_jobs_cycle X A (s\<lparr>jobs := jobs s\<rparr>) = (r1, s1)"
      by (cases "dx_jobs_cycle X A (s\<lparr>jobs := jobs s\<rparr>)") blast
    have stop: "r1 \<noteq> None \<Longrightarrow> r = r1 \<and> s' = s1"
      using Suc.prems False cyc by auto
    have rest: "r1 = None \<Longrightarrow> \<exists>evs2. events_ok (fst ` set (jobs s1)) s1 r s' evs2"
    proof -
      assume "r1 = None"
      with Suc.prems False cyc have "dx_jobs_loop X A fuel False s1 = Some (r, s')" by simp
      then show ?thesis by (rule Suc.IH)
    qed
    from dx_jobs_iteration_events [OF cyc stop rest] show ?thesis by simp
  qed
qed

lemma dx_jobs_loop_events_todo:
  assumes "dx_jobs_loop X A fuel True s = Some (r, s')"
  shows "\<exists>evs js. events_ok (fst ` set js) (s\<lparr>jobs := js\<rparr>) r s' evs"
proof (cases fuel)
  case 0
  with assms show ?thesis by simp
next
  case (Suc n)
  obtain r0 js where sub: "submit X (jobs s) = (r0, js)" by (cases "submit X (jobs s)") blast
  show ?thesis
  proof (cases r0)
    case (Some e)
    with assms Suc sub have "r = Some e" "s' = s\<lparr>jobs := js\<rparr>" by simp_all
    then have "events_ok (fst ` set js) (s\<lparr>jobs := js\<rparr>) r s' []" by (simp add: events_ok_Nil)
    then show ?thesis by blast
  next
    case None
    obtain r1 s1 where cyc: "dx_jobs_cycle X A (s\<lparr>jobs := js\<rparr>) = (r1, s1)"
      by (cases "dx_jobs_cycle X A (s\<lparr>jobs := js\<rparr>)") blast
    have stop: "r1 \<noteq> None \<Longrightarrow> r = r1 \<and> s' = s1"
      using assms Suc sub None cyc by auto
    have rest: "r1 = None \<Longrightarrow> \<exists>evs2. events_ok (fst ` set (jobs s1)) s1 r s' evs2"
    proof -
      assume "r1 = None"
      with assms Suc sub None cyc have "dx_jobs_loop X A n False s1 = Some (r, s')" by simp
      then show ?thesis by (rule dx_jobs_loop_events)
    qed
    from dx_jobs_iteration_events [OF cyc stop rest] show ?thesis by blast
  qed
qed

lemma dx_jobs_worker_no_repoll:
  assumes "dx_jobs_main_workflow X A fuel engine s = Some (r, s')"
  shows "\<exists>evs. trace s' = trace s @ evs \<and>
         (\<forall>pre k st post. evs = pre @ Fetch k (Inr st) # post \<and> st \<in> set terminal_states
             \<longrightarrow> k \<notin> fst ` set (jobs s') \<and> (\<forall>res. Fetch k res \<notin> set post))"
proof (cases "\<exists>eng. engine = Some eng \<and> serversess X eng = None")
  case False
  with assms have "s' = s"
    by (auto simp: dx_jobs_main_workflow_def split: option.splits)
  then show ?thesis by (intro exI [of _ "[]"]) simp
next
  case True
  with assms have "dx_jobs_loop X A fuel True s = Some (r, s')"
    by (auto simp: dx_jobs_main_workflow_def)
  from dx_jobs_loop_events_todo [OF this]
  obtain evs js where ok: "events_ok (fst ` set js) (s\<lparr>jobs := js\<rparr>) r s' evs" by blast
  then have tr: "trace s' = trace s @ evs" and nr: "no_repoll evs"
    unfolding events_ok_def by simp_all
  have "\<forall>pre k st post. evs = pre @ Fetch k (Inr st) # post \<and> st \<in> set terminal_states
           \<longrightarrow> k \<notin> fst ` set (jobs s') \<and> (\<forall>res. Fetch k res \<notin> set post)"
  proof (intro allI impI)
    fix pre k st post
    assume a: "evs = pre @ Fetch k (Inr st) # post \<and> st \<in> set terminal_states"
    then have "Fetch k (Inr st) \<in> set evs \<and> st \<in> set terminal_states" by simp
    then have "k \<in> set (retired evs)" unfolding retired_mem by blast
    with events_ok_retired_gone [OF ok] have 1: "k \<notin> fst ` set (jobs s')" by blast
    from a nr have "k \<notin> set (polled post)" by (auto dest: no_repoll_split)
    then have 2: "\<forall>res. Fetch k res \<notin> set post" by (simp add: polled_mem)
    from 1 2 show "k \<notin> fst ` set (jobs s') \<and> (\<forall>res. Fetch k res \<notin> set post)" ..
  qed
  with tr show ?thesis by blast
qed

text \<open>dx\_jobs.py sleeps once after a pass that leaves jobs in the table, and not otherwise.\<close>

lemma dx_jobs_cycle_sleeps_once:
  assumes "dx_jobs_cycle X A s = (None, s')"
  shows "\<exists>s1 evs. dx_jobs_poll X (dict_keys (jobs s)) 0 s = (None, s1) \<and> jobs s' = jobs s1
           \<and> trace s' = trace s1 @ (if jobs s1 \<noteq> [] then [Sleep (poll A)] else [])"
  using assms
  by (auto simp: dx_jobs_cycle_def split: prod.splits option.splits if_splits)


section \<open>The same for dx\_environment.py\<close>












section \<open>A fetch that fails\<close>


section \<open>One sleep for one pass\<close>







section \<open>A failed submission and the worker of another engine\<close>


section \<open>Concrete runs\<close>

lemmas ex_defs = ext_of_def args_of_def session0_def two_jobs_def ext_slow_def ext_flaky_def
  ext_unreachable_def failing_job_def
  default_poll_def js_container_count_def terminal_states_def dict_del_def
  js_container_main_workflow_def js_container_caught_def dx_environment_main_workflow_def
  dx_environment_caught_def dx_environment_cycle_def sublist_code

lemma run_slow:
  "js_container_main_workflow ext_slow (args_of False (Some ''a'')) [(''a'', eng_a)]
      (Suc (Suc (Suc 0))) (Some eng_a) session0 =
   Some (None, \<lparr>jobs = [], clock = 3,
      trace = [Fetch ''a.example'' (Inr ''RUNNING''), Running 1, Sleep ''10'',
               Fetch ''a.example'' (Inr ''RUNNING''), Running 1, Sleep ''10'',
               Fetch ''a.example'' (Inr ''COMPLETED''), Running 0]\<rparr>)"
  by (simp add: ex_defs)

lemma pass_done:
  "js_container_poll (ext_of []) (args_of False None) (dict_keys (jobs two_jobs)) 0 two_jobs =
   (None, \<lparr>jobs = [], clock = 2,
      trace = [Fetch ''k1'' (Inr ''COMPLETED''), Running 0, Sleep ''10'',
               Fetch ''k2'' (Inr ''COMPLETED''), Running 0]\<rparr>)"
  by (simp add: ex_defs)



theorem js_container_retired_never_polled_again_witness:
  "js_container_poll (ext_of []) (args_of False None) (dict_keys (jobs two_jobs)) 0 two_jobs =
     (None, \<lparr>jobs = [], clock = 2,
        trace = [Fetch ''k1'' (Inr ''COMPLETED''), Running 0, Sleep ''10'',
                 Fetch ''k2'' (Inr ''COMPLETED''), Running 0]\<rparr>)
   \<and> (\<exists>evs. trace \<lparr>jobs = [], clock = 2,
        trace = [Fetch ''k1'' (Inr ''COMPLETED''), Running 0, Sleep ''10'',
                 Fetch ''k2'' (Inr ''COMPLETED''), Running 0]\<rparr> = trace two_jobs @ evs \<and>
         (\<forall>k st. Fetch k (Inr st) \<in> set evs \<and> st \<in> set terminal_states
                    \<longrightarrow> k \<notin> fst ` set (jobs \<lparr>jobs = [], clock = 2,
        trace = [Fetch ''k1'' (Inr ''COMPLETED''), Running 0, Sleep ''10'',
                 Fetch ''k2'' (Inr ''COMPLETED''), Running 0]\<rparr>)))
   \<and> js_container_main_workflow ext_slow (args_of False (Some ''a'')) [(''a'', eng_a)]
        (Suc (Suc (Suc 0))) (Some eng_a) session0 =
     Some (None, \<lparr>jobs = [], clock = 3,
        trace = [Fetch ''a.example'' (Inr ''RUNNING''), Running 1, Sleep ''10'',
                 Fetch ''a.example'' (Inr ''RUNNING''), Running 1, Sleep ''10'',
                 Fetch ''a.example'' (Inr ''COMPLETED''), Running 0]\<rparr>)
   \<and> (\<exists>evs. trace \<lparr>jobs = [], clock = 3,
        trace = [Fetch ''a.example'' (Inr ''RUNNING''), Running 1, Sleep ''10'',
                 Fetch ''a.example'' (Inr ''RUNNING''), Running 1, Sleep ''10'',
                 Fetch ''a.example'' (Inr ''COMPLETED''), Running 0]\<rparr> = trace session0 @ evs \<and>
         (\<forall>pre k st post. evs = pre @ Fetch k (Inr st) # post \<and> st \<in> set terminal_states
             \<longrightarrow> k \<notin> fst ` set (jobs \<lparr>jobs = [], clock = 3,
        trace = [Fetch ''a.example'' (Inr ''RUNNING''), Running 1, Sleep ''10'',
                 Fetch ''a.example'' (Inr ''RUNNING''), Running 1, Sleep ''10'',
                 Fetch ''a.example'' (Inr ''COMPLETED''), Running 0]\<rparr>)
               \<and> (\<forall>res. Fetch k res \<notin> set post)))"
  (is "?p = (None, ?P) \<and> ?cp \<and> ?w = Some (None, ?F) \<and> ?cw")
proof -
  note T = js_container_retired_never_polled_again
    [where X = "ext_of []" and A = "args_of False None" and s = two_jobs and i = 0
       and ?r1.0 = None and ?s1.0 = ?P
       and Y = ext_slow and B = "args_of False (Some ''a'')" and conf = "[(''a'', eng_a)]"
       and fuel = "Suc (Suc (Suc 0))" and engine = "Some eng_a" and t = session0
       and r = None and t' = ?F]
  from T have 1: "?p = (None, ?P) \<longrightarrow> ?cp" by (rule conjunct1)
  from T have 2: "?w = Some (None, ?F) \<longrightarrow> ?cw" by (rule conjunct2)
  from 1 pass_done have cp: ?cp by (rule mp)
  from 2 run_slow have cw: ?cw by (rule mp)
  from pass_done cp run_slow cw show ?thesis by (intro conjI)
qed

lemmas env_defs = ex_defs eng_a_def tracked_a_def ext_running_def ext_refresh_slow_def
  ext_refresh_flaky_def refresh_env_def remote_env_def dict_set_def find_obj_by_name_def
  dx_jobs_cycle_def

lemma run_refresh_slow:
  "dx_environment_main_workflow ext_refresh_slow (args_of False (Some ''a''))
      (Suc (Suc (Suc 0))) (Some eng_a) session0 =
   Some (None, \<lparr>jobs = [], clock = 3,
      trace = [Fetch ''a.example'' (Inr ''RUNNING''), Running 1, Sleep ''10'',
               Fetch ''a.example'' (Inr ''RUNNING''), Running 1, Sleep ''10'',
               Fetch ''a.example'' (Inr ''COMPLETED''), Running 0]\<rparr>)"
  by (simp add: env_defs)









text \<open>
  The worker of B is not cut off from the session object that A leaves. Were the operation
  of A one that puts a job into the table, as \<^verbatim>\<open>refresh_env\<close> does, and were that job
  left there by a failed fetch, the worker of B would fetch and retire it.
\<close>

lemma tracked_job_reaches_sibling:
  "map_option snd (js_container_in_turn ext_unreachable ext_accepting (args_of True None)
       [(''a'', eng_a), (''b'', eng_b)] (Suc 0) (Suc 0) (Some eng_a) (Some eng_b) session0) =
     Some (None, \<lparr>jobs = [], clock = 2,
        trace = [Fetch ''a.example'' (Inl HttpError),
                 Fetch ''a.example'' (Inr ''COMPLETED''), Running 0]\<rparr>)"
  by (simp add: js_container_in_turn_def ex_defs ext_accepting_def create_container_def
        build_ds_params_def find_obj_by_name_def remote_rejecting_def remote_accepting_def)

end
